theory Spec2Isabelle
  imports Complex_Main "HOL-Library.Sublist" "HOL-Library.Char_ord" "HOL-Library.List_Lexorder"
    "HOL-Library.Log_Nat"
begin

section \<open>JavaScript primitives used by the request handlers\<close>

text \<open>
  The handlers of \<^verbatim>\<open>src/src/index.js\<close> read their inputs from \<^verbatim>\<open>req.body\<close>,
  \<^verbatim>\<open>req.query\<close> and \<^verbatim>\<open>req.params\<close>. A request object is modelled as a partial map
  from key to string: a key that is absent (\<^verbatim>\<open>undefined\<close>, or JSON \<^verbatim>\<open>null\<close>, which every
  handler treats alike) is \<open>None\<close>. The documented API only passes strings, and
  on strings no handler throws, so the \<^verbatim>\<open>catch\<close> branches answer no request of
  this model. A \<open>char\<close> stands for one UTF-16 code unit in the Latin-1 range.
  JavaScript numbers are IEEE 754 doubles; the subsection on numbers below says how
  the ones that occur here are represented and rounded.
\<close>

type_synonym params = "string \<rightharpoonup> string"

text \<open>Truthiness of an optional string: \<^verbatim>\<open>undefined\<close> and \<^verbatim>\<open>""\<close> are falsy.\<close>

definition truthy :: "string option \<Rightarrow> bool" where
  "truthy v = (case v of None \<Rightarrow> False | Some s \<Rightarrow> s \<noteq> [])"

text \<open>\<^verbatim>\<open>String.prototype.trim\<close>: white space and line terminators, Latin-1 range.\<close>

definition isWhiteSpace :: "char \<Rightarrow> bool" where
  "isWhiteSpace c = (c \<in> set [CHR 0x09, CHR 0x0A, CHR 0x0B, CHR 0x0C, CHR 0x0D, CHR 0x20, CHR 0xA0])"

definition trim :: "string \<Rightarrow> string" where
  "trim s = rev (dropWhile isWhiteSpace (rev (dropWhile isWhiteSpace s)))"

text \<open>\<^verbatim>\<open>!v || !v.trim()\<close>\<close>

definition blank :: "string option \<Rightarrow> bool" where
  "blank v = (case v of None \<Rightarrow> True | Some s \<Rightarrow> s = [] \<or> trim s = [])"

text \<open>\<^verbatim>\<open>String.prototype.toLowerCase\<close> on the Latin-1 range: A-Z and the accented
  capitals U+00C0..U+00DE (without the multiplication sign U+00D7) move up by 32,
  which on these ranges is setting the bit of weight 32.\<close>

definition add32 :: "char \<Rightarrow> char" where
  "add32 c = (case c of Char b0 b1 b2 b3 b4 b5 b6 b7 \<Rightarrow> Char b0 b1 b2 b3 b4 True b6 b7)"

definition toLowerCase_char :: "char \<Rightarrow> char" where
  "toLowerCase_char c =
     (let n = (of_char c :: nat)
      in if (65 \<le> n \<and> n \<le> 90) \<or> (192 \<le> n \<and> n \<le> 222 \<and> n \<noteq> 215)
         then add32 c else c)"

definition toLowerCase :: "string \<Rightarrow> string" where
  "toLowerCase s = map toLowerCase_char s"

text \<open>\<^verbatim>\<open>s.split(',')\<close>: the pieces between the separators; the empty string has one
  (empty) piece.\<close>

fun split_on :: "char \<Rightarrow> string \<Rightarrow> string list" where
  "split_on sep [] = [[]]"
| "split_on sep (c # cs) =
     (if c = sep then [] # split_on sep cs
      else (case split_on sep cs of [] \<Rightarrow> [[c]] | w # ws \<Rightarrow> (c # w) # ws))"

text \<open>\<^verbatim>\<open>xs.join(sep)\<close>\<close>

fun join :: "string \<Rightarrow> string list \<Rightarrow> string" where
  "join sep [] = []"
| "join sep [x] = x"
| "join sep (x # y # ys) = x @ sep @ join sep (y # ys)"

text \<open>\<^verbatim>\<open>data[0]\<close>: \<^verbatim>\<open>undefined\<close> on the empty array.\<close>

definition first :: "'a list \<Rightarrow> 'a option" where
  "first xs = (case xs of [] \<Rightarrow> None | x # _ \<Rightarrow> Some x)"

subsection \<open>Numbers\<close>

text \<open>
  A JavaScript number is an IEEE 754 double. The numbers the handlers compute with (a
  limit, a page number, a row position) are integers or infinite: \<open>number\<close> holds such
  a value, and \<^verbatim>\<open>NaN\<close> is the \<open>None\<close> of \<open>number option\<close>. Negative zero is not told from
  zero: where one can arise here it is tested for truthiness or multiplied, and it
  behaves as zero in both.
\<close>

datatype number = Fin int | PosInf | NegInf

text \<open>
  The double nearest to an integer. Below \<open>2^53\<close> in magnitude every integer is a
  double. Above, the 53 leading binary digits are kept (\<open>bitlen\<close> is the number of
  binary digits) and the rest is rounded to nearest, a tie going to the even 53-digit
  value; a result of magnitude \<open>2^1024\<close> is out of range and becomes infinite.
\<close>

definition round_double :: "int \<Rightarrow> number" where
  "round_double n =
     (let a = \<bar>n\<bar>
      in if a < 2 ^ 53 then Fin n
         else
           (let e = nat (bitlen a - 53);
                q = a div 2 ^ e;
                r = a mod 2 ^ e;
                up = (2 ^ e < 2 * r \<or> (2 * r = 2 ^ e \<and> odd q));
                m = (if up then q + 1 else q) * 2 ^ e
            in if 2 ^ 1024 \<le> m then (if n < 0 then NegInf else PosInf)
               else Fin (if n < 0 then - m else m)))"

text \<open>\<^verbatim>\<open>x + y\<close>, \<^verbatim>\<open>x - y\<close> and \<^verbatim>\<open>x * y\<close>: the exact result rounded to the nearest
  double; \<open>\<infinity> - \<infinity>\<close> and \<open>0 * \<infinity>\<close> are \<^verbatim>\<open>NaN\<close>, and \<^verbatim>\<open>NaN\<close> is passed on.\<close>

fun num_add :: "number option \<Rightarrow> number option \<Rightarrow> number option" where
  "num_add (Some (Fin a)) (Some (Fin b)) = Some (round_double (a + b))"
| "num_add (Some PosInf) (Some NegInf) = None"
| "num_add (Some NegInf) (Some PosInf) = None"
| "num_add (Some PosInf) (Some b) = Some PosInf"
| "num_add (Some a) (Some PosInf) = Some PosInf"
| "num_add (Some NegInf) (Some b) = Some NegInf"
| "num_add (Some a) (Some NegInf) = Some NegInf"
| "num_add None b = None"
| "num_add a None = None"

definition num_neg :: "number \<Rightarrow> number" where
  "num_neg x = (case x of Fin n \<Rightarrow> Fin (- n) | PosInf \<Rightarrow> NegInf | NegInf \<Rightarrow> PosInf)"

definition num_sub :: "number option \<Rightarrow> number option \<Rightarrow> number option" where
  "num_sub x y = num_add x (map_option num_neg y)"

definition num_sign :: "number \<Rightarrow> int" where
  "num_sign x = (case x of Fin n \<Rightarrow> sgn n | PosInf \<Rightarrow> 1 | NegInf \<Rightarrow> - 1)"

fun num_mul :: "number option \<Rightarrow> number option \<Rightarrow> number option" where
  "num_mul (Some (Fin a)) (Some (Fin b)) = Some (round_double (a * b))"
| "num_mul (Some x) (Some y) =
     (if num_sign x * num_sign y = 0 then None
      else if 0 < num_sign x * num_sign y then Some PosInf else Some NegInf)"
| "num_mul None y = None"
| "num_mul x None = None"

subsection \<open>parseInt\<close>

text \<open>
  \<^verbatim>\<open>parseInt(v)\<close> with no radix: leading white space is skipped, one sign is read, a
  \<^verbatim>\<open>0x\<close>/\<^verbatim>\<open>0X\<close> prefix selects radix 16, and the longest prefix of digits is the
  value, as the double nearest to the integer written. No digit at all (and
  \<^verbatim>\<open>undefined\<close>) gives \<^verbatim>\<open>NaN\<close>, here \<open>None\<close>.
\<close>

definition digit_of :: "nat \<Rightarrow> char \<Rightarrow> nat option" where
  "digit_of radix c =
     (let n = (of_char c :: nat);
          d = (if 48 \<le> n \<and> n \<le> 57 then Some (n - 48)
               else if 97 \<le> n \<and> n \<le> 122 then Some (n - 87)
               else if 65 \<le> n \<and> n \<le> 90 then Some (n - 55)
               else None)
      in case d of None \<Rightarrow> None | Some k \<Rightarrow> if k < radix then Some k else None)"

fun digits_value :: "nat \<Rightarrow> nat \<Rightarrow> string \<Rightarrow> nat" where
  "digits_value radix acc [] = acc"
| "digits_value radix acc (c # cs) =
     (case digit_of radix c of
        None \<Rightarrow> acc
      | Some d \<Rightarrow> digits_value radix (acc * radix + d) cs)"

definition parse_digits :: "nat \<Rightarrow> string \<Rightarrow> nat option" where
  "parse_digits radix s =
     (case s of
        [] \<Rightarrow> None
      | c # _ \<Rightarrow> (case digit_of radix c of
                    None \<Rightarrow> None
                  | Some _ \<Rightarrow> Some (digits_value radix 0 s)))"

definition parse_unsigned :: "string \<Rightarrow> nat option" where
  "parse_unsigned s =
     (case s of
        a # b # rest \<Rightarrow>
          (if a = CHR ''0'' \<and> (b = CHR ''x'' \<or> b = CHR ''X'') then parse_digits 16 rest
           else parse_digits 10 s)
      | _ \<Rightarrow> parse_digits 10 s)"

definition parseInt :: "string option \<Rightarrow> number option" where
  "parseInt v =
     (case v of
        None \<Rightarrow> None
      | Some s \<Rightarrow>
          (case dropWhile isWhiteSpace s of
             [] \<Rightarrow> None
           | c # cs \<Rightarrow>
               (if c = CHR ''-'' then map_option (\<lambda>n. round_double (- int n)) (parse_unsigned cs)
                else if c = CHR ''+'' then map_option (\<lambda>n. round_double (int n)) (parse_unsigned cs)
                else map_option (\<lambda>n. round_double (int n)) (parse_unsigned (c # cs)))))"

text \<open>\<^verbatim>\<open>parseInt(v) || d\<close>: \<^verbatim>\<open>NaN\<close> and \<open>0\<close> are falsy, every other number is
  truthy.\<close>

definition or_default :: "number option \<Rightarrow> int \<Rightarrow> number" where
  "or_default n d = (case n of None \<Rightarrow> Fin d | Some x \<Rightarrow> if x = Fin 0 then Fin d else x)"

text \<open>\<^verbatim>\<open>Math.min(Math.max(parseInt(limit) || d, 1), 100)\<close> and
  \<^verbatim>\<open>Math.max(parseInt(page) || 1, 1)\<close>, shared by the three list handlers. The maximum
  with 1 of \<open>-\<infinity>\<close> is 1 and of \<open>\<infinity>\<close> is \<open>\<infinity>\<close>; the minimum with 100 of \<open>\<infinity>\<close> is 100, so
  that the limit is always an integer.\<close>

definition pageLimit :: "int \<Rightarrow> string option \<Rightarrow> int" where
  "pageLimit d limit =
     (case or_default (parseInt limit) d of
        Fin n \<Rightarrow> min (max n 1) 100
      | PosInf \<Rightarrow> 100
      | NegInf \<Rightarrow> 1)"

definition pageNumber :: "string option \<Rightarrow> number" where
  "pageNumber page =
     (case or_default (parseInt page) 1 of
        Fin n \<Rightarrow> Fin (max n 1)
      | PosInf \<Rightarrow> PosInf
      | NegInf \<Rightarrow> Fin 1)"

text \<open>\<^verbatim>\<open>Math.ceil(count / limit)\<close> for a positive limit, in integer arithmetic. The
  handlers divide in double arithmetic; for a limit of at most 100 and a count below
  \<open>2^47\<close> the rounding of the quotient is smaller than the distance \<open>1/limit\<close> of a
  fractional quotient from the next integer, so that the ceiling is the same.\<close>

definition ceil_div :: "int \<Rightarrow> int \<Rightarrow> int" where
  "ceil_div a b = - ((- a) div b)"

section \<open>The task store\<close>

text \<open>
  Modelled from the spec: the Task Store. The table \<^verbatim>\<open>Tasks\<close> lives in a hosted
  Supabase project and is reached through the \<^verbatim>\<open>supabase-js\<close> query builder; neither is
  among the sources, which only hold the handlers that call them. The spec (sections 2
  and 3) describes the store as a collection of rows with columns \<^verbatim>\<open>id, title, author,
  priority, description, due_date, start_date, created_at, updated_at\<close>, offering
  membership, case-insensitive pattern (\<^verbatim>\<open>ilike\<close>) and range filters, a logical OR
  across \<^verbatim>\<open>ilike\<close> conditions, ordering with control over null placement, offset/limit
  windows and exact counts, and as the party that assigns \<^verbatim>\<open>id\<close> and the timestamps.
  The definitions of this section follow that description. What the handlers ask of the
  store (the query they build, the order of their calls, the mapping of the store's
  answer to a response) is translated from the source in the next section.
\<close>

record task =
  task_id :: string
  title :: "string option"
  author :: "string option"
  priority :: "string option"
  description :: "string option"
  due_date :: "string option"
  start_date :: "string option"
  created_at :: int
  updated_at :: "int option"

datatype store_error = StoreError (error_code: string) (error_message: string)

datatype store_op = OpInsert | OpSelect | OpUpdate | OpDelete

text \<open>
  The state of the store: its rows in table order, the next identifier and the clock it
  stamps rows with, the error it currently answers every call with (\<open>None\<close> when it is
  healthy; connectivity and constraint failures are not decided by the handlers), and
  the log of the calls it has received.
\<close>

record store =
  rows :: "task list"
  next_id :: nat
  clock :: int
  down :: "store_error option"
  calls :: "store_op list"

text \<open>What a handler sends for a list query: the filters in the order the builder
  received them, the ordering (column, ascending, nullsFirst) and the row window.\<close>

datatype cond =
    OrCond string
  | InCond string "string list"
  | IlikeCond string string
  | GteCond string string
  | LteCond string string

record query =
  conds :: "cond list"
  ordering :: "(string \<times> bool \<times> bool option) option"
  window :: "(number option \<times> number option) option"

subsection \<open>Columns\<close>

definition text_columns :: "string list" where
  "text_columns = [''title'', ''author'', ''priority'', ''description'']"

definition date_columns :: "string list" where
  "date_columns = [''start_date'', ''due_date'']"

definition columns :: "string list" where
  "columns = ''id'' # text_columns @ date_columns @ [''created_at'', ''updated_at'']"

definition text_column :: "string \<Rightarrow> task \<Rightarrow> string option" where
  "text_column c t =
     (if c = ''title'' then title t
      else if c = ''author'' then author t
      else if c = ''priority'' then priority t
      else if c = ''description'' then description t
      else None)"

definition date_column :: "string \<Rightarrow> task \<Rightarrow> string option" where
  "date_column c t =
     (if c = ''start_date'' then start_date t
      else if c = ''due_date'' then due_date t
      else None)"

subsection \<open>Pattern matching\<close>

text \<open>
  SQL \<^verbatim>\<open>LIKE\<close>: \<^verbatim>\<open>%\<close> matches any run of characters, \<^verbatim>\<open>_\<close> any one character, a
  backslash takes the next pattern character literally. \<^verbatim>\<open>ILIKE\<close> compares without
  regard to case; the query interface reads \<^verbatim>\<open>*\<close> in a pattern as \<^verbatim>\<open>%\<close>.
\<close>

fun like :: "string \<Rightarrow> string \<Rightarrow> bool" where
  "like [] t = (t = [])"
| "like (p # ps) t =
     (if p = CHR ''%'' then
        (like ps t \<or> (case t of [] \<Rightarrow> False | c # t' \<Rightarrow> like (p # ps) t'))
      else if p = CHR 0x5C then
        (case ps of
           [] \<Rightarrow> False
         | e # ps' \<Rightarrow> (case t of [] \<Rightarrow> False | c # t' \<Rightarrow> e = c \<and> like ps' t'))
      else (case t of [] \<Rightarrow> False | c # t' \<Rightarrow> (p = CHR ''_'' \<or> p = c) \<and> like ps t'))"

definition star_to_percent :: "string \<Rightarrow> string" where
  "star_to_percent p = map (\<lambda>c. if c = CHR ''*'' then CHR ''%'' else c) p"

definition ilike :: "string \<Rightarrow> string \<Rightarrow> bool" where
  "ilike pat v = like (toLowerCase (star_to_percent pat)) (toLowerCase v)"

definition column_ilike :: "string \<Rightarrow> string \<Rightarrow> task \<Rightarrow> bool" where
  "column_ilike c pat t = (case text_column c t of None \<Rightarrow> False | Some v \<Rightarrow> ilike pat v)"

subsection \<open>The logical OR filter\<close>

text \<open>
  The argument of \<^verbatim>\<open>.or(...)\<close> is text: conditions \<^verbatim>\<open>column.operator.value\<close> separated
  by commas. A comma therefore always ends a condition and a closing parenthesis ends the
  list, whatever the caller meant by them. Only the operator the handlers write,
  \<^verbatim>\<open>ilike\<close>, is read here; any other text is answered with an error.
\<close>

definition parse_cond :: "string \<Rightarrow> (string \<times> string) option" where
  "parse_cond part =
     (let col = takeWhile (\<lambda>c. c \<noteq> CHR ''.'') part;
          rest = dropWhile (\<lambda>c. c \<noteq> CHR ''.'') part
      in case rest of
           [] \<Rightarrow> None
         | _ # rest' \<Rightarrow>
             (let oper = takeWhile (\<lambda>c. c \<noteq> CHR ''.'') rest';
                  val = dropWhile (\<lambda>c. c \<noteq> CHR ''.'') rest'
              in case val of
                   [] \<Rightarrow> None
                 | _ # v \<Rightarrow>
                     if oper = ''ilike'' \<and> CHR '')'' \<notin> set v then Some (col, v) else None))"

definition parse_or :: "string \<Rightarrow> (string \<times> string) list option" where
  "parse_or s = those (map parse_cond (split_on CHR '','' s))"

subsection \<open>Filters\<close>

text \<open>A filter the store cannot read (an unknown column, a malformed OR text, a bound
  that is no date) makes the whole query fail; \<open>ts\<close> is the store's reading of a
  date text as a point in time.\<close>

fun cond_ok :: "(string \<Rightarrow> int option) \<Rightarrow> cond \<Rightarrow> bool" where
  "cond_ok ts (OrCond s) =
     (case parse_or s of
        None \<Rightarrow> False
      | Some cs \<Rightarrow> list_all (\<lambda>cp. fst cp \<in> set text_columns) cs)"
| "cond_ok ts (InCond c vs) = (c \<in> set text_columns)"
| "cond_ok ts (IlikeCond c pat) = (c \<in> set text_columns)"
| "cond_ok ts (GteCond c b) = (c \<in> set date_columns \<and> ts b \<noteq> None)"
| "cond_ok ts (LteCond c b) = (c \<in> set date_columns \<and> ts b \<noteq> None)"

definition date_cmp :: "(string \<Rightarrow> int option) \<Rightarrow> (int \<Rightarrow> int \<Rightarrow> bool) \<Rightarrow> string option \<Rightarrow> string \<Rightarrow> bool" where
  "date_cmp ts rel v b =
     (case v of
        None \<Rightarrow> False
      | Some d \<Rightarrow> (case ts d of
                     None \<Rightarrow> False
                   | Some x \<Rightarrow> (case ts b of None \<Rightarrow> False | Some y \<Rightarrow> rel x y)))"

fun cond_holds :: "(string \<Rightarrow> int option) \<Rightarrow> cond \<Rightarrow> task \<Rightarrow> bool" where
  "cond_holds ts (OrCond s) t =
     (case parse_or s of
        None \<Rightarrow> False
      | Some cs \<Rightarrow> list_ex (\<lambda>cp. column_ilike (fst cp) (snd cp) t) cs)"
| "cond_holds ts (InCond c vs) t =
     (case text_column c t of None \<Rightarrow> False | Some v \<Rightarrow> v \<in> set vs)"
| "cond_holds ts (IlikeCond c pat) t = column_ilike c pat t"
| "cond_holds ts (GteCond c b) t = date_cmp ts (\<lambda>x y. x \<ge> y) (date_column c t) b"
| "cond_holds ts (LteCond c b) t = date_cmp ts (\<lambda>x y. x \<le> y) (date_column c t) b"

definition matching :: "(string \<Rightarrow> int option) \<Rightarrow> cond list \<Rightarrow> task list \<Rightarrow> task list" where
  "matching ts cs ts_rows = filter (\<lambda>t. list_all (\<lambda>c. cond_holds ts c t) cs) ts_rows"

subsection \<open>Ordering and windows\<close>

datatype cell = Null | Text string | Time int

definition cell_of :: "(string \<Rightarrow> int option) \<Rightarrow> string \<Rightarrow> task \<Rightarrow> cell" where
  "cell_of ts c t =
     (if c = ''id'' then Text (task_id t)
      else if c \<in> set text_columns then
        (case text_column c t of None \<Rightarrow> Null | Some v \<Rightarrow> Text v)
      else if c \<in> set date_columns then
        (case date_column c t of
           None \<Rightarrow> Null
         | Some d \<Rightarrow> (case ts d of None \<Rightarrow> Null | Some x \<Rightarrow> Time x))
      else if c = ''created_at'' then Time (created_at t)
      else if c = ''updated_at'' then
        (case updated_at t of None \<Rightarrow> Null | Some x \<Rightarrow> Time x)
      else Null)"

fun cell_le :: "cell \<Rightarrow> cell \<Rightarrow> bool" where
  "cell_le (Text a) (Text b) = (a \<le> b)"
| "cell_le (Time a) (Time b) = (a \<le> b)"
| "cell_le _ _ = True"

fun insert_by :: "('a \<Rightarrow> 'a \<Rightarrow> bool) \<Rightarrow> 'a \<Rightarrow> 'a list \<Rightarrow> 'a list" where
  "insert_by le x [] = [x]"
| "insert_by le x (y # ys) = (if le x y then x # y # ys else y # insert_by le x ys)"

definition insertion_sort :: "('a \<Rightarrow> 'a \<Rightarrow> bool) \<Rightarrow> 'a list \<Rightarrow> 'a list" where
  "insertion_sort le xs = foldr (insert_by le) xs []"

text \<open>Rows with a null in the ordering column go first or last as \<^verbatim>\<open>nullsFirst\<close>
  says; when it is not given, they go last in ascending and first in descending order.\<close>

definition order_rows :: "(string \<Rightarrow> int option) \<Rightarrow> string \<times> bool \<times> bool option \<Rightarrow> task list \<Rightarrow> task list" where
  "order_rows ts ord ms =
     (case ord of (c, ascending, nullsFirst) \<Rightarrow>
        (let nulls = filter (\<lambda>t. cell_of ts c t = Null) ms;
             vals = filter (\<lambda>t. cell_of ts c t \<noteq> Null) ms;
             sorted = insertion_sort (\<lambda>a b. if ascending then cell_le (cell_of ts c a) (cell_of ts c b)
                                      else cell_le (cell_of ts c b) (cell_of ts c a)) vals;
             nf = (case nullsFirst of None \<Rightarrow> \<not> ascending | Some b \<Rightarrow> b)
         in if nf then nulls @ sorted else sorted @ nulls))"

text \<open>\<^verbatim>\<open>.range(from, to)\<close>: the rows at the zero-based positions \<open>from..to\<close>. A bound
  that is no integer is the position of no row.\<close>

definition slice :: "number option \<times> number option \<Rightarrow> 'a list \<Rightarrow> 'a list" where
  "slice w xs =
     (case w of
        (Some (Fin from), Some (Fin to)) \<Rightarrow> take (nat (to - from + 1)) (drop (nat from) xs)
      | _ \<Rightarrow> [])"

subsection \<open>The store's operations\<close>

definition logged :: "store_op \<Rightarrow> store \<Rightarrow> store" where
  "logged oper s = s\<lparr>calls := calls s @ [oper]\<rparr>"

definition bad_query :: store_error where
  "bad_query = StoreError ''PGRST100'' ''failed to parse the query''"

definition no_single_row :: store_error where
  "no_single_row = StoreError ''PGRST116'' ''JSON object requested, multiple (or no) rows returned''"

definition bad_date :: store_error where
  "bad_date = StoreError ''22007'' ''invalid input syntax for type timestamp''"

definition bad_column :: store_error where
  "bad_column = StoreError ''PGRST204'' ''column not found or not writable''"

text \<open>\<^verbatim>\<open>.select('*', { count: 'exact' })\<close> with filters, ordering and window: the
  rows of the window and the exact number of rows that pass the filters.\<close>

definition store_select :: "(string \<Rightarrow> int option) \<Rightarrow> query \<Rightarrow> store \<Rightarrow> (store_error + task list \<times> nat) \<times> store" where
  "store_select ts q s =
     (let s' = logged OpSelect s
      in case down s of
           Some e \<Rightarrow> (Inl e, s')
         | None \<Rightarrow>
             if \<not> list_all (cond_ok ts) (conds q) then (Inl bad_query, s')
             else if (case ordering q of None \<Rightarrow> False | Some ord \<Rightarrow> fst ord \<notin> set columns)
               then (Inl bad_query, s')
             else
               (let ms = matching ts (conds q) (rows s);
                    os = (case ordering q of None \<Rightarrow> ms | Some ord \<Rightarrow> order_rows ts ord ms);
                    page_rows = (case window q of None \<Rightarrow> os | Some w \<Rightarrow> slice w os)
                in (Inr (page_rows, length ms), s')))"

text \<open>\<^verbatim>\<open>.select(...).eq('id', id).single()\<close>: the one row with this identifier; an
  error when there is none (or more than one).\<close>

definition store_single :: "string \<Rightarrow> store \<Rightarrow> (store_error + task) \<times> store" where
  "store_single ident s =
     (let s' = logged OpSelect s
      in case down s of
           Some e \<Rightarrow> (Inl e, s')
         | None \<Rightarrow>
             (case filter (\<lambda>t. task_id t = ident) (rows s) of
                [t] \<Rightarrow> (Inr t, s')
              | _ \<Rightarrow> (Inl no_single_row, s')))"

text \<open>Identifiers are assigned from a counter, written in decimal.\<close>

definition digit_char :: "nat \<Rightarrow> char" where
  "digit_char d = ''0123456789'' ! d"

fun show_nat :: "nat \<Rightarrow> string" where
  "show_nat n =
     (if n < 10 then [digit_char n]
      else show_nat (n div 10) @ [digit_char (n mod 10)])"

definition readable :: "(string \<Rightarrow> int option) \<Rightarrow> string option \<Rightarrow> bool" where
  "readable ts v = (case v of None \<Rightarrow> True | Some d \<Rightarrow> ts d \<noteq> None)"

text \<open>\<^verbatim>\<open>.insert([model]).select()\<close>: the store adds one row holding the fields of the
  model, assigns \<^verbatim>\<open>id\<close> and \<^verbatim>\<open>created_at\<close>, and returns the row. Columns the model does
  not name stay null.\<close>

definition new_task :: "(string \<times> string) list \<Rightarrow> store \<Rightarrow> task" where
  "new_task model s =
     \<lparr> task_id = show_nat (next_id s),
       title = map_of model ''title'',
       author = map_of model ''author'',
       priority = map_of model ''priority'',
       description = map_of model ''description'',
       due_date = map_of model ''due_date'',
       start_date = map_of model ''start_date'',
       created_at = clock s,
       updated_at = None \<rparr>"

definition store_insert :: "(string \<Rightarrow> int option) \<Rightarrow> (string \<times> string) list \<Rightarrow> store \<Rightarrow> (store_error + task list) \<times> store" where
  "store_insert ts model s =
     (let s' = logged OpInsert s
      in case down s of
           Some e \<Rightarrow> (Inl e, s')
         | None \<Rightarrow>
             if \<not> list_all (\<lambda>kv. fst kv \<in> set (text_columns @ date_columns)) model
               then (Inl bad_column, s')
             else if \<not> (readable ts (map_of model ''due_date'') \<and> readable ts (map_of model ''start_date''))
               then (Inl bad_date, s')
             else
               (let t = new_task model s
                in (Inr [t], s'\<lparr>rows := rows s @ [t], next_id := next_id s + 1, clock := clock s + 1\<rparr>)))"

text \<open>\<^verbatim>\<open>.update(updates).eq('id', id).select()\<close>: every row with this identifier gets
  the named columns overwritten (a JSON null clears the column) and \<^verbatim>\<open>updated_at\<close>
  refreshed; the rows as updated are returned. The identifier and the timestamps are
  the store's own and cannot be written.\<close>

fun set_column :: "string \<times> string option \<Rightarrow> task \<Rightarrow> task" where
  "set_column (k, v) t =
     (if k = ''title'' then t\<lparr>title := v\<rparr>
      else if k = ''author'' then t\<lparr>author := v\<rparr>
      else if k = ''priority'' then t\<lparr>priority := v\<rparr>
      else if k = ''description'' then t\<lparr>description := v\<rparr>
      else if k = ''due_date'' then t\<lparr>due_date := v\<rparr>
      else if k = ''start_date'' then t\<lparr>start_date := v\<rparr>
      else t)"

definition apply_updates :: "(string \<times> string option) list \<Rightarrow> int \<Rightarrow> task \<Rightarrow> task" where
  "apply_updates updates now t = (fold set_column updates t)\<lparr>updated_at := Some now\<rparr>"

definition store_update :: "(string \<Rightarrow> int option) \<Rightarrow> string \<Rightarrow> (string \<times> string option) list \<Rightarrow> store \<Rightarrow> (store_error + task list) \<times> store" where
  "store_update ts ident updates s =
     (let s' = logged OpUpdate s
      in case down s of
           Some e \<Rightarrow> (Inl e, s')
         | None \<Rightarrow>
             if \<not> list_all (\<lambda>kv. fst kv \<in> set (text_columns @ date_columns)) updates
               then (Inl bad_column, s')
             else if \<not> list_all (\<lambda>kv. fst kv \<notin> set date_columns \<or> readable ts (snd kv)) updates
               then (Inl bad_date, s')
             else
               (Inr (map (apply_updates updates (clock s)) (filter (\<lambda>t. task_id t = ident) (rows s))),
                s'\<lparr>rows := map (\<lambda>t. if task_id t = ident then apply_updates updates (clock s) t else t) (rows s),
                    clock := clock s + 1\<rparr>))"

text \<open>\<^verbatim>\<open>.delete().eq('id', id).select()\<close>: the rows with this identifier are removed
  and returned as they were.\<close>

definition store_delete :: "string \<Rightarrow> store \<Rightarrow> (store_error + task list) \<times> store" where
  "store_delete ident s =
     (let s' = logged OpDelete s
      in case down s of
           Some e \<Rightarrow> (Inl e, s')
         | None \<Rightarrow>
             (Inr (filter (\<lambda>t. task_id t = ident) (rows s)),
              s'\<lparr>rows := filter (\<lambda>t. task_id t \<noteq> ident) (rows s)\<rparr>))"

section \<open>The request handlers\<close>

text \<open>
  Translated from \<^verbatim>\<open>src/src/index.js\<close>. Every route is registered twice there with the
  same text; Express serves the first registration, which is the one translated. A
  handler takes the request and the store and returns the response with the store as
  the calls have left it. \<open>dateParse\<close> is JavaScript's \<^verbatim>\<open>Date.parse\<close> (\<open>None\<close> for
  \<^verbatim>\<open>NaN\<close>), which \<^verbatim>\<open>new Date(text)\<close> shares; \<open>ts\<close> is the store's own reading of dates.
\<close>

record pagination =
  page :: number
  limit :: int
  total :: nat
  totalPages :: int

record applied_filters =
  filter_priority :: "string list option"
  filter_author :: "string option"
  filter_start_date :: "(string option \<times> string option) option"
  filter_due_date :: "(string option \<times> string option) option"

record search_info =
  search_term :: string
  search_fields :: "string list"
  search_filters :: applied_filters
  resultsCount :: nat

text \<open>What a property lookup on the object literal \<^verbatim>\<open>sortableFields\<close> can yield: one of
  its own strings, or a member it inherits from \<^verbatim>\<open>Object.prototype\<close> (a function, or the
  prototype object itself under \<^verbatim>\<open>__proto__\<close>).\<close>

datatype jsval = JStr string | JFun string | JObj

datatype payload =
    Error string
  | ErrorMessage string string
  | Created "task option"
  | Data "task option"
  | Page "task list" pagination
  | SearchPage "task list" search_info pagination "string \<times> string"
  | SortPage "task list" "jsval \<times> string" pagination

record response =
  status :: nat
  payload :: payload

definition respond :: "nat \<Rightarrow> payload \<Rightarrow> response" where
  "respond st p = \<lparr> status = st, payload = p \<rparr>"

text \<open>The text of a value that has been found truthy.\<close>

definition text_of :: "string option \<Rightarrow> string" where
  "text_of v = (case v of None \<Rightarrow> [] | Some s \<Rightarrow> s)"

subsection \<open>POST /tasks\<close>

definition validPriorities :: "string list" where
  "validPriorities = [''low'', ''medium'', ''high'']"

definition date_after :: "(string \<Rightarrow> int option) \<Rightarrow> string \<Rightarrow> string \<Rightarrow> bool" where
  "date_after dateParse a b =
     (case dateParse a of
        None \<Rightarrow> False
      | Some x \<Rightarrow> (case dateParse b of None \<Rightarrow> False | Some y \<Rightarrow> x > y))"

text \<open>The validation of lines 69-100 and the model of lines 102-110: the early
  return, or the object handed to \<^verbatim>\<open>insert\<close>, keys in insertion order.\<close>

definition post_tasks_model :: "(string \<Rightarrow> int option) \<Rightarrow> params \<Rightarrow> response + (string \<times> string) list" where
  "post_tasks_model dateParse body =
     (let title = body ''title''; author = body ''author''; priority = body ''priority'';
          description = body ''description''; due_date = body ''due_date'';
          start_date = body ''start_date''
      in if blank title then Inl (respond 400 (Error ''Title is required''))
         else if blank author then Inl (respond 400 (Error ''Author is required''))
         else if truthy priority \<and> toLowerCase (text_of priority) \<notin> set validPriorities
           then Inl (respond 400 (Error (''Priority must be one of: '' @ join '', '' validPriorities)))
         else if truthy due_date \<and> dateParse (text_of due_date) = None
           then Inl (respond 400 (Error ''Invalid due_date format''))
         else if truthy start_date \<and> dateParse (text_of start_date) = None
           then Inl (respond 400 (Error ''Invalid start_date format''))
         else if truthy start_date \<and> truthy due_date
                 \<and> date_after dateParse (text_of start_date) (text_of due_date)
           then Inl (respond 400 (Error ''Start date cannot be after due date''))
         else Inr ([(''title'', trim (text_of title)), (''author'', trim (text_of author))]
                   @ (if truthy priority then [(''priority'', toLowerCase (text_of priority))] else [])
                   @ (if truthy description then [(''description'', trim (text_of description))] else [])
                   @ (if truthy due_date then [(''due_date'', text_of due_date)] else [])
                   @ (if truthy start_date then [(''start_date'', text_of start_date)] else [])))"

text \<open>Lines 117-134: the store's answer to the insert, mapped to a response.\<close>

definition post_tasks_respond :: "store_error + task list \<Rightarrow> response" where
  "post_tasks_respond res =
     (case res of
        Inl e \<Rightarrow>
          if error_code e = ''23505'' then respond 409 (Error ''Task already exists'')
          else respond 500 (ErrorMessage ''Failed to create task'' (error_message e))
      | Inr rs \<Rightarrow> respond 201 (Created (first rs)))"

definition post_tasks :: "(string \<Rightarrow> int option) \<Rightarrow> (string \<Rightarrow> int option) \<Rightarrow> params \<Rightarrow> store \<Rightarrow> response \<times> store" where
  "post_tasks dateParse ts body s =
     (case post_tasks_model dateParse body of
        Inl r \<Rightarrow> (r, s)
      | Inr model \<Rightarrow>
          (case store_insert ts model s of (res, s') \<Rightarrow> (post_tasks_respond res, s')))"

subsection \<open>GET /tasks/search\<close>

definition searchableFields :: "string list" where
  "searchableFields = [''title'', ''description'', ''author'', ''priority'']"

definition fieldsToSearch :: "string option \<Rightarrow> string list" where
  "fieldsToSearch fieldsParam =
     (if truthy fieldsParam
      then filter (\<lambda>f. trim f \<in> set searchableFields) (split_on CHR '','' (text_of fieldsParam))
      else searchableFields)"

definition orConditions :: "string list \<Rightarrow> string \<Rightarrow> string" where
  "orConditions fs searchTerm =
     join '','' (map (\<lambda>field. field @ ''.ilike.%'' @ searchTerm @ ''%'') fs)"

definition validSortFields :: "string list" where
  "validSortFields = searchableFields @ [''created_at'', ''updated_at'', ''start_date'', ''due_date'']"

definition search_sortField :: "string option \<Rightarrow> string" where
  "search_sortField sortParam =
     (if truthy sortParam \<and> text_of sortParam \<in> set validSortFields
      then text_of sortParam else ''created_at'')"

definition search_priorities :: "string \<Rightarrow> string list" where
  "search_priorities priorityParam = map trim (split_on CHR '','' priorityParam)"

text \<open>The range filters of lines 223-237, written the same way in both list
  handlers.\<close>

definition date_filters :: "params \<Rightarrow> cond list" where
  "date_filters req =
     (if truthy (req ''start_date_from'') then [GteCond ''start_date'' (text_of (req ''start_date_from''))] else [])
     @ (if truthy (req ''start_date_to'') then [LteCond ''start_date'' (text_of (req ''start_date_to''))] else [])
     @ (if truthy (req ''due_date_from'') then [GteCond ''due_date'' (text_of (req ''due_date_from''))] else [])
     @ (if truthy (req ''due_date_to'') then [LteCond ''due_date'' (text_of (req ''due_date_to''))] else [])"

definition author_filter :: "params \<Rightarrow> cond list" where
  "author_filter req =
     (if truthy (req ''author'')
      then [IlikeCond ''author'' (''%'' @ trim (text_of (req ''author'')) @ ''%'')] else [])"

definition search_conds :: "params \<Rightarrow> cond list" where
  "search_conds req =
     [OrCond (orConditions (fieldsToSearch (req ''fields'')) (trim (text_of (req ''q''))))]
     @ (if truthy (req ''priority'')
        then [InCond ''priority'' (search_priorities (text_of (req ''priority'')))] else [])
     @ author_filter req
     @ date_filters req"

text \<open>\<^verbatim>\<open>from = (pageNumber - 1) * pageLimit\<close> and \<^verbatim>\<open>to = from + pageLimit - 1\<close>, each
  operation rounded as double arithmetic rounds it.\<close>

definition page_window :: "number \<Rightarrow> int \<Rightarrow> number option \<times> number option" where
  "page_window pageNo pageLim =
     (let from = num_mul (num_sub (Some pageNo) (Some (Fin 1))) (Some (Fin pageLim));
          to = num_sub (num_add from (Some (Fin pageLim))) (Some (Fin 1))
      in (from, to))"

definition search_query :: "params \<Rightarrow> query" where
  "search_query req =
     \<lparr> conds = search_conds req,
       ordering = Some (search_sortField (req ''sort''), req ''order'' = Some ''asc'', None),
       window = Some (page_window (pageNumber (req ''page'')) (pageLimit 20 (req ''limit''))) \<rparr>"

definition appliedFilters :: "params \<Rightarrow> applied_filters" where
  "appliedFilters req =
     \<lparr> filter_priority =
         (if truthy (req ''priority'') then Some (split_on CHR '','' (text_of (req ''priority''))) else None),
       filter_author = (if truthy (req ''author'') then req ''author'' else None),
       filter_start_date =
         (if truthy (req ''start_date_from'') \<or> truthy (req ''start_date_to'')
          then Some (req ''start_date_from'', req ''start_date_to'') else None),
       filter_due_date =
         (if truthy (req ''due_date_from'') \<or> truthy (req ''due_date_to'')
          then Some (req ''due_date_from'', req ''due_date_to'') else None) \<rparr>"

definition tasks_search :: "(string \<Rightarrow> int option) \<Rightarrow> params \<Rightarrow> store \<Rightarrow> response \<times> store" where
  "tasks_search ts req s =
     (if blank (req ''q'') then (respond 400 (Error ''Query parameter q is required''), s)
      else if fieldsToSearch (req ''fields'') = []
        then (respond 400 (Error (''Invalid fields. Available: '' @ join '', '' searchableFields)), s)
      else
        (case store_select ts (search_query req) s of
           (Inl e, s') \<Rightarrow> (respond 500 (ErrorMessage ''Search failed'' (error_message e)), s')
         | (Inr (rs, n), s') \<Rightarrow>
             (let pageLim = pageLimit 20 (req ''limit'')
              in (respond 200
                    (SearchPage rs
                       \<lparr> search_term = trim (text_of (req ''q'')),
                         search_fields = fieldsToSearch (req ''fields''),
                         search_filters = appliedFilters req,
                         resultsCount = n \<rparr>
                       \<lparr> page = pageNumber (req ''page''), limit = pageLim, total = n,
                         totalPages = ceil_div (int n) pageLim \<rparr>
                       (search_sortField (req ''sort''),
                        if truthy (req ''order'') then text_of (req ''order'') else ''desc'')),
                  s'))))"

subsection \<open>GET /tasks/sort\<close>

definition object_prototype_functions :: "string list" where
  "object_prototype_functions =
     [''constructor'', ''hasOwnProperty'', ''isPrototypeOf'', ''propertyIsEnumerable'',
      ''toLocaleString'', ''toString'', ''valueOf'', ''__defineGetter__'',
      ''__defineSetter__'', ''__lookupGetter__'', ''__lookupSetter__'']"

text \<open>\<^verbatim>\<open>sortableFields[sort_by]\<close>: a lookup on an object literal finds the literal's
  own eight keys (each mapped to itself) and, through the prototype chain, the members
  of \<^verbatim>\<open>Object.prototype\<close>; \<^verbatim>\<open>undefined\<close> (\<open>None\<close>) otherwise.\<close>

definition sortableFields :: "string \<Rightarrow> jsval option" where
  "sortableFields k =
     (if k \<in> set [''title'', ''author'', ''priority'', ''created_at'', ''updated_at'',
                   ''start_date'', ''due_date'', ''description'']
        then Some (JStr k)
      else if k = ''constructor'' then Some (JFun ''Object'')
      else if k \<in> set object_prototype_functions then Some (JFun k)
      else if k = ''__proto__'' then Some JObj
      else None)"

definition sort_sortField :: "string option \<Rightarrow> jsval" where
  "sort_sortField sortBy =
     (if truthy sortBy \<and> sortableFields (text_of sortBy) \<noteq> None
      then (case sortableFields (text_of sortBy) of Some v \<Rightarrow> v | None \<Rightarrow> JStr ''created_at'')
      else JStr ''created_at'')"

text \<open>The column name the query builder writes for the sort field: the text of the
  value, as a template literal renders it.\<close>

definition js_toString :: "jsval \<Rightarrow> string" where
  "js_toString v =
     (case v of
        JStr x \<Rightarrow> x
      | JFun n \<Rightarrow> ''function '' @ n @ ''() { [native code] }''
      | JObj \<Rightarrow> ''[object Object]'')"

definition sort_priorities :: "string \<Rightarrow> string list" where
  "sort_priorities priorityParam =
     map (\<lambda>p. toLowerCase (trim p)) (split_on CHR '','' priorityParam)"

definition sort_conds :: "params \<Rightarrow> cond list" where
  "sort_conds req =
     (if truthy (req ''priority'')
      then [InCond ''priority'' (sort_priorities (text_of (req ''priority'')))] else [])
     @ author_filter req
     @ date_filters req"

definition sort_query :: "params \<Rightarrow> query" where
  "sort_query req =
     \<lparr> conds = sort_conds req,
       ordering = Some (js_toString (sort_sortField (req ''sort_by'')),
                        req ''order'' = Some ''asc'', Some False),
       window = Some (page_window (pageNumber (req ''page'')) (pageLimit 20 (req ''limit''))) \<rparr>"

definition tasks_sort :: "(string \<Rightarrow> int option) \<Rightarrow> params \<Rightarrow> store \<Rightarrow> response \<times> store" where
  "tasks_sort ts req s =
     (case store_select ts (sort_query req) s of
        (Inl e, s') \<Rightarrow> (respond 500 (ErrorMessage ''Failed to sort tasks'' (error_message e)), s')
      | (Inr (rs, n), s') \<Rightarrow>
          (let pageLim = pageLimit 20 (req ''limit'')
           in (respond 200
                 (SortPage rs
                    (sort_sortField (req ''sort_by''),
                     if req ''order'' = Some ''asc'' then ''asc'' else ''desc'')
                    \<lparr> page = pageNumber (req ''page''), limit = pageLim, total = n,
                      totalPages = ceil_div (int n) pageLim \<rparr>),
               s')))"

subsection \<open>GET /tasks/:id\<close>

definition get_task :: "string \<Rightarrow> store \<Rightarrow> response \<times> store" where
  "get_task ident s =
     (if ident = [] then (respond 400 (Error ''ID is required''), s)
      else (case store_single ident s of
              (Inl e, s') \<Rightarrow> (respond 500 (Error (error_message e)), s')
            | (Inr t, s') \<Rightarrow> (respond 200 (Data (Some t)), s')))"

subsection \<open>GET /tasks\<close>

definition list_query :: "params \<Rightarrow> query" where
  "list_query req =
     \<lparr> conds = [], ordering = None,
       window = Some (page_window (pageNumber (req ''page'')) (pageLimit 10 (req ''limit''))) \<rparr>"

definition list_tasks :: "(string \<Rightarrow> int option) \<Rightarrow> params \<Rightarrow> store \<Rightarrow> response \<times> store" where
  "list_tasks ts req s =
     (let pageLim = pageLimit 10 (req ''limit''); pageNo = pageNumber (req ''page'')
      in case store_select ts (list_query req) s of
           (Inl e, s') \<Rightarrow> (respond 500 (ErrorMessage ''Failed to fetch tasks'' (error_message e)), s')
         | (Inr (rs, n), s') \<Rightarrow>
             (respond 200
                (Page rs \<lparr> page = pageNo, limit = pageLim, total = n,
                          totalPages = ceil_div (int n) pageLim \<rparr>),
              s'))"

subsection \<open>PATCH /tasks/:id\<close>

definition patch_task :: "(string \<Rightarrow> int option) \<Rightarrow> string \<Rightarrow> (string \<times> string option) list \<Rightarrow> store \<Rightarrow> response \<times> store" where
  "patch_task ts ident updates s =
     (if ident = [] then (respond 400 (Error ''ID is required''), s)
      else (case store_single ident s of
              (Inl e, s1) \<Rightarrow> (respond 404 (Error ''Task not found''), s1)
            | (Inr t, s1) \<Rightarrow>
                (case store_update ts ident updates s1 of
                   (Inl e, s2) \<Rightarrow> (respond 500 (Error (error_message e)), s2)
                 | (Inr rs, s2) \<Rightarrow> (respond 200 (Data (first rs)), s2))))"

subsection \<open>DELETE /tasks/:id\<close>

definition delete_task :: "string \<Rightarrow> store \<Rightarrow> response \<times> store" where
  "delete_task ident s =
     (if ident = [] then (respond 400 (Error ''ID is required''), s)
      else (case store_single ident s of
              (Inl e, s1) \<Rightarrow> (respond 404 (Error ''Task not found''), s1)
            | (Inr t, s1) \<Rightarrow>
                (case store_delete ident s1 of
                   (Inl e, s2) \<Rightarrow> (respond 500 (Error (error_message e)), s2)
                 | (Inr rs, s2) \<Rightarrow> (respond 200 (Data (first rs)), s2))))"

section \<open>The specification's wording, and example data\<close>

text \<open>
  The definitions of this section do not come from the source. They restate phrases of
  the specification so that the handlers can be compared with them, and fix the small
  store and the requests on which the theorems below are evaluated.
\<close>

text \<open>``\<^verbatim>\<open>limit\<close> (default \<open>d\<close>, clamped to [1,100])'': the default when no number is given,
  the nearest value of the interval otherwise.\<close>

definition clamped_limit :: "int \<Rightarrow> string option \<Rightarrow> int" where
  "clamped_limit d v =
     (case parseInt v of
        None \<Rightarrow> d
      | Some (Fin n) \<Rightarrow> min (max n 1) 100
      | Some PosInf \<Rightarrow> 100
      | Some NegInf \<Rightarrow> 1)"

text \<open>``Stored trimmed'': the stored text \<open>t\<close> is the input \<open>s\<close> without the white space at
  its two ends. It occurs in \<open>s\<close> at some position, what precedes and what follows it
  in \<open>s\<close> is white space, and it neither begins nor ends with white space.\<close>

definition trimmed_of :: "string \<Rightarrow> string \<Rightarrow> bool" where
  "trimmed_of s t =
     (list_ex (\<lambda>i. list_all isWhiteSpace (take i s) \<and> take (length t) (drop i s) = t
                    \<and> list_all isWhiteSpace (drop (i + length t) s))
        [0..<Suc (length s)]
      \<and> (t = [] \<or> (\<not> isWhiteSpace (hd t) \<and> \<not> isWhiteSpace (last t))))"

text \<open>An entry of the \<^verbatim>\<open>fields\<close> parameter that is one of the four field names with
  white space around it.\<close>

definition padded_name :: "string \<Rightarrow> bool" where
  "padded_name e =
     (e \<notin> set [''title'', ''description'', ''author'', ''priority'']
      \<and> trim e \<in> set [''title'', ''description'', ''author'', ''priority''])"

text \<open>``The search term appears (case-insensitive substring)'' in a column value; a
  null column holds no text.\<close>

definition occurs_in :: "string \<Rightarrow> string option \<Rightarrow> bool" where
  "occurs_in needle v =
     (case v of None \<Rightarrow> False | Some x \<Rightarrow> sublist (toLowerCase needle) (toLowerCase x))"

text \<open>``A row qualifies if the search term appears in any of the selected fields, AND all
  supplied structured filters also hold'': priority membership, author substring, and
  the four inclusive date bounds, each only when supplied.\<close>

definition spec_search_match :: "(string \<Rightarrow> int option) \<Rightarrow> params \<Rightarrow> task \<Rightarrow> bool" where
  "spec_search_match ts req t =
     (list_ex (\<lambda>f. occurs_in (trim (text_of (req ''q''))) (text_column f t))
        (fieldsToSearch (req ''fields''))
      \<and> (truthy (req ''priority'') \<longrightarrow>
           (case priority t of
              None \<Rightarrow> False
            | Some p \<Rightarrow> p \<in> set (map trim (split_on CHR '','' (text_of (req ''priority''))))))
      \<and> (truthy (req ''author'') \<longrightarrow> occurs_in (trim (text_of (req ''author''))) (author t))
      \<and> (truthy (req ''start_date_from'') \<longrightarrow>
           date_cmp ts (\<lambda>x y. x \<ge> y) (start_date t) (text_of (req ''start_date_from'')))
      \<and> (truthy (req ''start_date_to'') \<longrightarrow>
           date_cmp ts (\<lambda>x y. x \<le> y) (start_date t) (text_of (req ''start_date_to'')))
      \<and> (truthy (req ''due_date_from'') \<longrightarrow>
           date_cmp ts (\<lambda>x y. x \<ge> y) (due_date t) (text_of (req ''due_date_from'')))
      \<and> (truthy (req ''due_date_to'') \<longrightarrow>
           date_cmp ts (\<lambda>x y. x \<le> y) (due_date t) (text_of (req ''due_date_to''))))"

text \<open>Characters with a meaning of their own in an \<^verbatim>\<open>ilike\<close> pattern, and the two that
  end a condition inside the text of an OR filter.\<close>

definition like_special :: "char list" where
  "like_special = [CHR ''%'', CHR ''_'', CHR 0x5C, CHR ''*'']"

definition plain_pattern :: "string \<Rightarrow> bool" where
  "plain_pattern s = list_all (\<lambda>c. c \<notin> set like_special) s"

definition plain_term :: "string \<Rightarrow> bool" where
  "plain_term s = list_all (\<lambda>c. c \<notin> set (like_special @ [CHR '','', CHR '')''])) s"

text \<open>The rows a response carries.\<close>

definition data_rows :: "response \<Rightarrow> task list" where
  "data_rows r =
     (case payload r of
        Page rs pg \<Rightarrow> rs
      | SearchPage rs info pg srt \<Rightarrow> rs
      | SortPage rs srt pg \<Rightarrow> rs
      | Created t \<Rightarrow> (case t of None \<Rightarrow> [] | Some x \<Rightarrow> [x])
      | Data t \<Rightarrow> (case t of None \<Rightarrow> [] | Some x \<Rightarrow> [x])
      | Error m \<Rightarrow> []
      | ErrorMessage m d \<Rightarrow> [])"

text \<open>A reading of three dates as day numbers, an empty store, and the store after the
  specification's scenario ``create \<^verbatim>\<open>{title:"Write spec", author:"Ada", priority:"HIGH",
  start_date:"2024-01-01", due_date:"2024-01-10"}\<close>''.\<close>

definition example_dates :: "string \<Rightarrow> int option" where
  "example_dates d =
     (if d = ''2024-01-01'' then Some 1
      else if d = ''2024-01-10'' then Some 10
      else if d = ''2024-01-20'' then Some 20
      else None)"

definition empty_store :: store where
  "empty_store = \<lparr> rows = [], next_id = 1, clock = 0, down = None, calls = [] \<rparr>"

definition scenario_body :: params where
  "scenario_body = [''title'' \<mapsto> ''Write spec'', ''author'' \<mapsto> ''Ada'', ''priority'' \<mapsto> ''HIGH'',
                    ''start_date'' \<mapsto> ''2024-01-01'', ''due_date'' \<mapsto> ''2024-01-10'']"

definition spec_task :: task where
  "spec_task = \<lparr> task_id = ''1'', title = Some ''Write spec'', author = Some ''Ada'',
       priority = Some ''high'', description = None, due_date = Some ''2024-01-10'',
       start_date = Some ''2024-01-01'', created_at = 0, updated_at = None \<rparr>"

text \<open>A create request whose texts carry white space at their ends, and the row it
  creates in the empty store.\<close>

definition padded_body :: params where
  "padded_body = [''title'' \<mapsto> ''  Write spec '', ''author'' \<mapsto> '' Ada'', ''priority'' \<mapsto> ''High'',
                  ''description'' \<mapsto> ''first draft  '', ''due_date'' \<mapsto> ''2024-01-10'']"

definition padded_task :: task where
  "padded_task = \<lparr> task_id = ''1'', title = Some ''Write spec'', author = Some ''Ada'',
       priority = Some ''high'', description = Some ''first draft'', due_date = Some ''2024-01-10'',
       start_date = None, created_at = 0, updated_at = None \<rparr>"

definition one_task_store :: store where
  "one_task_store = \<lparr> rows = [spec_task], next_id = 2, clock = 1, down = None, calls = [] \<rparr>"

definition example_search :: params where
  "example_search = [''q'' \<mapsto> '' SPEC '', ''fields'' \<mapsto> ''title,description'',
                     ''priority'' \<mapsto> ''low, high'', ''author'' \<mapsto> ''ada'',
                     ''due_date_to'' \<mapsto> ''2024-01-20'']"

section \<open>Auxiliary facts\<close>

subsection \<open>Pagination arithmetic\<close>

lemma round_double_exact: "\<bar>n\<bar> < 2 ^ 53 \<Longrightarrow> round_double n = Fin n"
  by (simp add: round_double_def Let_def)

text \<open>Above \<open>2^53\<close> the written integer and the window are rounded: the page
  \<open>2^53 + 1\<close> is read as \<open>2^53\<close>, and its window of 10 rows is asked for as the
  positions \<open>90071992547409904..90071992547409920\<close>.\<close>

lemma parseInt_rounded:
  "pageNumber (Some ''9007199254740993'') = Fin 9007199254740992"
  by (simp add: pageNumber_def or_default_def parseInt_def parse_unsigned_def parse_digits_def
      digit_of_def isWhiteSpace_def round_double_def Let_def compute_bitlen)

lemma page_window_rounded:
  "round_double 9007199254740993 = Fin 9007199254740992
   \<and> page_window (Fin 9007199254740992) 10
       = (Some (Fin 90071992547409904), Some (Fin 90071992547409920))"
  by code_simp

lemma pageLimit_range: "1 \<le> pageLimit d v \<and> pageLimit d v \<le> 100"
  by (simp add: pageLimit_def split: number.splits)

lemma pageLimit_cases:
  "pageLimit d v = (case parseInt v of
                      None \<Rightarrow> min (max d 1) 100
                    | Some (Fin n) \<Rightarrow> if n = 0 then min (max d 1) 100 else min (max n 1) 100
                    | Some PosInf \<Rightarrow> 100
                    | Some NegInf \<Rightarrow> 1)"
  by (simp add: pageLimit_def or_default_def split: option.splits number.splits)

lemma pageNumber_cases:
  "pageNumber v = (case parseInt v of
                     None \<Rightarrow> Fin 1
                   | Some (Fin n) \<Rightarrow> Fin (max n 1)
                   | Some PosInf \<Rightarrow> PosInf
                   | Some NegInf \<Rightarrow> Fin 1)"
  by (simp add: pageNumber_def or_default_def split: option.splits number.splits)

lemma pageNumber_positive: "pageNumber v = Fin P \<Longrightarrow> 1 \<le> P"
  by (auto simp: pageNumber_def split: number.splits)

text \<open>Where the last position of the window lies below \<open>2^53\<close>, no operation
  rounds.\<close>

lemma page_window_exact:
  assumes "1 \<le> P" and "1 \<le> L" and "P * L < 2 ^ 53"
  shows "page_window (Fin P) L = (Some (Fin ((P - 1) * L)), Some (Fin ((P - 1) * L + L - 1)))"
proof -
  have pl: "P \<le> P * L" using assms(1,2) by (simp add: mult_le_cancel_left1)
  have e: "(P - 1) * L + L = P * L" by (simp add: algebra_simps)
  have nn: "0 \<le> (P - 1) * L" using assms(1,2) by simp
  have b1: "\<bar>P + - 1\<bar> < 2 ^ 53" using assms(1,3) pl by linarith
  have b2: "\<bar>(P - 1) * L\<bar> < 2 ^ 53" using assms(2,3) e nn by linarith
  have b3: "\<bar>(P - 1) * L + L\<bar> < 2 ^ 53" using assms(1,2,3) e nn by linarith
  have b4: "\<bar>(P - 1) * L + L + - 1\<bar> < 2 ^ 53" using assms(1,2,3) e nn by linarith
  have s1: "num_sub (Some (Fin P)) (Some (Fin 1)) = Some (Fin (P - 1))"
    using round_double_exact [OF b1] by (simp add: num_sub_def num_neg_def)
  have s2: "num_mul (Some (Fin (P - 1))) (Some (Fin L)) = Some (Fin ((P - 1) * L))"
    using round_double_exact [OF b2] by simp
  have s3: "num_add (Some (Fin ((P - 1) * L))) (Some (Fin L)) = Some (Fin ((P - 1) * L + L))"
    using round_double_exact [OF b3] by simp
  have s4: "num_sub (Some (Fin ((P - 1) * L + L))) (Some (Fin 1)) = Some (Fin ((P - 1) * L + L - 1))"
    using round_double_exact [OF b4] by (simp add: num_sub_def num_neg_def)
  show ?thesis
    by (simp only: page_window_def Let_def s1 s2 s3 s4)
qed

lemma slice_integers:
  "slice (Some (Fin a), Some (Fin b)) xs = take (nat (b - a + 1)) (drop (nat a) xs)"
  by (simp add: slice_def)

lemma ceil_div_ceiling: "ceil_div a b = \<lceil>real_of_int a / real_of_int b\<rceil>"
  by (simp add: ceil_div_def ceiling_divide_eq_div)

lemma ceil_div_covers: "0 < b \<Longrightarrow> a \<le> ceil_div a b * b"
proof -
  assume b: "0 < b"
  have "(- a) div b * b = - a - (- a) mod b" by (simp add: minus_mod_eq_div_mult)
  moreover have "0 \<le> (- a) mod b" using b by simp
  ultimately have "(- a) div b * b \<le> - a" by linarith
  then show ?thesis by (simp add: ceil_div_def)
qed

subsection \<open>The store\<close>

text \<open>The equation of \<open>show_nat\<close> rewrites its own right-hand side; it is used only
  where the number is known.\<close>

declare show_nat.simps [simp del]

lemma logged_fields [simp]:
  "rows (logged oper s) = rows s" "down (logged oper s) = down s"
  "clock (logged oper s) = clock s" "next_id (logged oper s) = next_id s"
  "calls (logged oper s) = calls s @ [oper]"
  by (simp_all add: logged_def)

lemma store_single_none:
  "filter (\<lambda>t. task_id t = ident) (rows s) = [] \<Longrightarrow>
     \<exists>e. store_single ident s = (Inl e, logged OpSelect s)"
  by (simp add: store_single_def Let_def split: option.splits)

lemma store_single_none_healthy:
  "down s = None \<Longrightarrow> filter (\<lambda>t. task_id t = ident) (rows s) = [] \<Longrightarrow>
     store_single ident s = (Inl no_single_row, logged OpSelect s)"
  by (simp add: store_single_def Let_def)

lemma store_single_one:
  "down s = None \<Longrightarrow> filter (\<lambda>t. task_id t = ident) (rows s) = [t] \<Longrightarrow>
     store_single ident s = (Inr t, logged OpSelect s)"
  by (simp add: store_single_def Let_def)

lemma store_insert_Inr:
  "store_insert ts model s = (Inr rs, s') \<Longrightarrow>
     rs = [new_task model s]
     \<and> s' = (logged OpInsert s)\<lparr>rows := rows s @ [new_task model s], next_id := next_id s + 1,
                                  clock := clock s + 1\<rparr>"
  by (clarsimp simp add: store_insert_def Let_def split: option.splits if_splits)

lemma filter_out_then_in:
  "filter (\<lambda>t. task_id t = ident) (filter (\<lambda>t. task_id t \<noteq> ident) xs) = []"
  by (induction xs) auto

lemma store_select_list:
  "down s = None \<Longrightarrow>
     store_select ts (list_query req) s
       = (Inr (slice (page_window (pageNumber (req ''page'')) (pageLimit 10 (req ''limit''))) (rows s),
               length (rows s)), logged OpSelect s)"
  by (simp add: store_select_def list_query_def matching_def Let_def)

lemma store_select_logs: "snd (store_select ts q s) = logged OpSelect s"
  by (simp add: store_select_def Let_def split: option.splits)

subsection \<open>Trimming\<close>

lemma last_dropWhile_eq: "dropWhile P xs \<noteq> [] \<Longrightarrow> last (dropWhile P xs) = last xs"
proof -
  assume a: "dropWhile P xs \<noteq> []"
  have "last xs = last (takeWhile P xs @ dropWhile P xs)" by simp
  also have "\<dots> = last (dropWhile P xs)" by (rule last_appendR [OF a])
  finally show ?thesis by simp
qed

lemma trim_parts:
  "s = takeWhile isWhiteSpace s @ trim s @ rev (takeWhile isWhiteSpace (rev (dropWhile isWhiteSpace s)))"
proof -
  let ?mid = "dropWhile isWhiteSpace s"
  have "rev (takeWhile isWhiteSpace (rev ?mid) @ dropWhile isWhiteSpace (rev ?mid))
      = rev (dropWhile isWhiteSpace (rev ?mid)) @ rev (takeWhile isWhiteSpace (rev ?mid))"
    by (rule rev_append)
  then have "rev (rev ?mid)
      = rev (dropWhile isWhiteSpace (rev ?mid)) @ rev (takeWhile isWhiteSpace (rev ?mid))"
    by (simp only: takeWhile_dropWhile_id)
  then have "?mid = trim s @ rev (takeWhile isWhiteSpace (rev ?mid))"
    by (simp only: rev_rev_ident trim_def)
  moreover have "s = takeWhile isWhiteSpace s @ ?mid" by simp
  ultimately show ?thesis by metis
qed

lemma trim_ends: "trim s = [] \<or> (\<not> isWhiteSpace (hd (trim s)) \<and> \<not> isWhiteSpace (last (trim s)))"
proof (cases "trim s = []")
  case True
  then show ?thesis by simp
next
  case False
  let ?mid = "dropWhile isWhiteSpace s"
  let ?d = "dropWhile isWhiteSpace (rev ?mid)"
  have d: "?d \<noteq> []" using False by (simp only: trim_def rev_is_Nil_conv not_False_eq_True)
  have m: "?mid \<noteq> []"
  proof
    assume "?mid = []"
    then have "?d = []" by (simp only: rev.simps(1) dropWhile.simps(1))
    with d show False by simp
  qed
  have "last (trim s) = hd ?d" using d by (simp add: trim_def last_rev)
  moreover have "\<not> isWhiteSpace (hd ?d)" using d by (rule hd_dropWhile)
  moreover have "hd (trim s) = last ?d" using d by (simp add: trim_def hd_rev)
  moreover have "last ?d = last (rev ?mid)" using d by (rule last_dropWhile_eq)
  moreover have "last (rev ?mid) = hd ?mid" using m by (simp add: last_rev)
  moreover have "\<not> isWhiteSpace (hd ?mid)" using m by (rule hd_dropWhile)
  ultimately show ?thesis by simp
qed

lemma trim_trimmed_of: "trimmed_of s (trim s)"
proof -
  let ?pre = "takeWhile isWhiteSpace s"
  let ?post = "rev (takeWhile isWhiteSpace (rev (dropWhile isWhiteSpace s)))"
  let ?i = "length ?pre"
  note p = trim_parts [of s]
  have len: "length s = ?i + length (trim s) + length ?post"
    by (subst p) (simp only: length_append add.assoc)
  have i: "?i \<in> set [0..<Suc (length s)]" using len by simp
  have t1: "take ?i s = ?pre" by (subst p) simp
  have d1: "drop ?i s = trim s @ ?post" by (subst p) simp
  have a: "list_all isWhiteSpace (take ?i s)"
    unfolding t1 by (simp add: list_all_iff) (metis set_takeWhileD)
  have b: "take (length (trim s)) (drop ?i s) = trim s" unfolding d1 by simp
  have d2: "drop (?i + length (trim s)) s = ?post"
  proof -
    have "drop (?i + length (trim s)) s = drop (length (trim s)) (drop ?i s)"
      by (simp add: add.commute)
    then show ?thesis unfolding d1 by simp
  qed
  have c: "list_all isWhiteSpace (drop (?i + length (trim s)) s)"
    unfolding d2 by (simp add: list_all_iff) (metis set_takeWhileD)
  have "list_ex (\<lambda>i. list_all isWhiteSpace (take i s) \<and> take (length (trim s)) (drop i s) = trim s
                    \<and> list_all isWhiteSpace (drop (i + length (trim s)) s)) [0..<Suc (length s)]"
    unfolding list_ex_iff using i a b c by blast
  then show ?thesis using trim_ends [of s] by (simp only: trimmed_of_def)
qed

lemma not_blank_trim: "\<not> blank v \<Longrightarrow> trim (text_of v) \<noteq> []"
  by (simp add: blank_def text_of_def split: option.splits)

subsection \<open>The create model\<close>

lemma post_tasks_model_Inr_exact:
  assumes "post_tasks_model dateParse body = Inr model"
  shows "model = [(''title'', trim (text_of (body ''title''))), (''author'', trim (text_of (body ''author'')))]
           @ (if truthy (body ''priority'') then [(''priority'', toLowerCase (text_of (body ''priority'')))] else [])
           @ (if truthy (body ''description'') then [(''description'', trim (text_of (body ''description'')))] else [])
           @ (if truthy (body ''due_date'') then [(''due_date'', text_of (body ''due_date''))] else [])
           @ (if truthy (body ''start_date'') then [(''start_date'', text_of (body ''start_date''))] else [])"
  using assms unfolding post_tasks_model_def Let_def
  by (simp split: if_splits)

lemma post_tasks_model_Inr_valid:
  assumes "post_tasks_model dateParse body = Inr model"
  shows "\<not> blank (body ''title'') \<and> \<not> blank (body ''author'')"
  using assms unfolding post_tasks_model_def Let_def
  by (simp split: if_splits)

lemma post_tasks_model_Inr_priority:
  assumes "post_tasks_model dateParse body = Inr model"
  shows "truthy (body ''priority'') \<longrightarrow> toLowerCase (text_of (body ''priority'')) \<in> set validPriorities"
  using assms unfolding post_tasks_model_def Let_def
  by (simp split: if_splits)

text \<open>The first test of a chain of early returns that succeeds decides the result.\<close>

lemma first_hit:
  "c1 \<Longrightarrow> (if c1 then x1 else r1) = x1"
  "\<not> c1 \<Longrightarrow> c2 \<Longrightarrow> (if c1 then x1 else if c2 then x2 else r2) = x2"
  "\<not> c1 \<Longrightarrow> \<not> c2 \<Longrightarrow> c3 \<Longrightarrow> (if c1 then x1 else if c2 then x2 else if c3 then x3 else r3) = x3"
  "\<not> c1 \<Longrightarrow> \<not> c2 \<Longrightarrow> \<not> c3 \<Longrightarrow> c4 \<Longrightarrow>
     (if c1 then x1 else if c2 then x2 else if c3 then x3 else if c4 then x4 else r4) = x4"
  "\<not> c1 \<Longrightarrow> \<not> c2 \<Longrightarrow> \<not> c3 \<Longrightarrow> \<not> c4 \<Longrightarrow> c5 \<Longrightarrow>
     (if c1 then x1 else if c2 then x2 else if c3 then x3 else if c4 then x4
      else if c5 then x5 else r5) = x5"
  "\<not> c1 \<Longrightarrow> \<not> c2 \<Longrightarrow> \<not> c3 \<Longrightarrow> \<not> c4 \<Longrightarrow> \<not> c5 \<Longrightarrow> c6 \<Longrightarrow>
     (if c1 then x1 else if c2 then x2 else if c3 then x3 else if c4 then x4
      else if c5 then x5 else if c6 then x6 else r6) = x6"
  by simp_all

lemma truthy_dom: "truthy (body k) \<Longrightarrow> k \<in> dom body"
  by (auto simp: truthy_def split: option.splits)

lemma not_blank_dom: "\<not> blank (body k) \<Longrightarrow> k \<in> dom body"
  by (auto simp: blank_def split: option.splits)

subsection \<open>The search fields\<close>

text \<open>A search request that passes validation is put to the store, which answers it or
  fails.\<close>

lemma tasks_search_asks_store:
  assumes "\<not> blank (req ''q'')" and "fieldsToSearch (req ''fields'') \<noteq> []"
  shows "snd (tasks_search ts req s) = logged OpSelect s
     \<and> (status (fst (tasks_search ts req s)) = 200 \<or> status (fst (tasks_search ts req s)) = 500)"
proof -
  obtain res s' where r: "store_select ts (search_query req) s = (res, s')"
    by (cases "store_select ts (search_query req) s") 
  have s': "s' = logged OpSelect s" using store_select_logs [of ts "search_query req" s] r by simp
  show ?thesis
  proof (cases res)
    case (Inl e)
    then show ?thesis using assms r s' by (simp add: tasks_search_def respond_def)
  next
    case (Inr p)
    obtain rs n where p: "p = (rs, n)" by (cases p)
    show ?thesis using assms r s' Inr p by (simp add: tasks_search_def respond_def Let_def)
  qed
qed

text \<open>Where no entry is a field name with white space around it, testing the trimmed
  entry is testing the entry.\<close>

lemma unpadded_filter:
  "\<not> list_ex padded_name es \<Longrightarrow>
     filter (\<lambda>f. trim f \<in> set searchableFields) es
       = filter (\<lambda>e. e \<in> set [''title'', ''description'', ''author'', ''priority'']) es"
proof (induction es)
  case Nil
  then show ?case by simp
next
  case (Cons e es)
  have "\<not> padded_name e" and rest: "\<not> list_ex padded_name es" using Cons.prems by simp_all
  moreover have "e \<in> set [''title'', ''description'', ''author'', ''priority'']
      \<Longrightarrow> trim e \<in> set [''title'', ''description'', ''author'', ''priority'']"
    by simp (elim disjE; simp add: trim_def isWhiteSpace_def)
  ultimately have "(trim e \<in> set searchableFields)
      = (e \<in> set [''title'', ''description'', ''author'', ''priority''])"
    unfolding padded_name_def searchableFields_def by blast
  then show ?case using Cons.IH [OF rest] by (simp del: set_simps)
qed

text \<open>An entry that is a field name with white space around it passes the test of its
  trimmed text and is kept as written, where the priority filter of the same handler
  trims the entries it keeps. The store knows no column of that name, and the search
  fails.\<close>

lemma search_padded_field: "fieldsToSearch (Some ''title, description'') = [''title'', '' description'']
   \<and> fst (tasks_search example_dates [''q'' \<mapsto> ''spec'', ''fields'' \<mapsto> ''title, description''] one_task_store)
       = respond 500 (ErrorMessage ''Search failed'' (error_message bad_query))"
  by code_simp

subsection \<open>Reading back the OR filter\<close>

lemma split_on_no_sep: "sep \<notin> set x \<Longrightarrow> split_on sep x = [x]"
  by (induction x) auto

lemma split_on_append_sep:
  "sep \<notin> set x \<Longrightarrow> split_on sep (x @ sep # rest) = x # split_on sep rest"
  by (induction x) auto

lemma split_on_join:
  "xs \<noteq> [] \<Longrightarrow> list_all (\<lambda>x. CHR '','' \<notin> set x) xs \<Longrightarrow> split_on CHR '','' (join '','' xs) = xs"
proof (induction "'',''" xs rule: join.induct)
  case 1
  then show ?case by simp
next
  case (2 x)
  then show ?case by (simp add: split_on_no_sep)
next
  case (3 x y ys)
  then show ?case using split_on_append_sep [of "CHR '',''" x "join '','' (y # ys)"] by simp
qed

lemma parse_cond_ilike:
  assumes "CHR ''.'' \<notin> set f" and "CHR '')'' \<notin> set v"
  shows "parse_cond (f @ ''.ilike.'' @ v) = Some (f, v)"
proof -
  have t: "takeWhile (\<lambda>c. c \<noteq> CHR ''.'') (f @ ''.ilike.'' @ v) = f"
    using assms(1) by (subst takeWhile_append2) auto
  have d: "dropWhile (\<lambda>c. c \<noteq> CHR ''.'') (f @ ''.ilike.'' @ v) = ''.ilike.'' @ v"
    using assms(1) by (subst dropWhile_append2) auto
  show ?thesis
    using assms(2) unfolding parse_cond_def t d by (simp add: Let_def)
qed

lemma those_map_all:
  "list_all (\<lambda>x. h x = Some (g x)) xs \<Longrightarrow> those (map h xs) = Some (map g xs)"
  by (induction xs) auto

lemma parse_or_orConditions:
  assumes "fs \<noteq> []"
    and "list_all (\<lambda>f. CHR ''.'' \<notin> set f \<and> CHR '','' \<notin> set f) fs"
    and "CHR '','' \<notin> set searchTerm" and "CHR '')'' \<notin> set searchTerm"
  shows "parse_or (orConditions fs searchTerm)
           = Some (map (\<lambda>f. (f, CHR ''%'' # searchTerm @ [CHR ''%''])) fs)"
proof -
  let ?g = "\<lambda>field. field @ ''.ilike.%'' @ searchTerm @ ''%''"
  have nocomma: "list_all (\<lambda>x. CHR '','' \<notin> set x) (map ?g fs)"
    using assms(2,3) by (induction fs) auto
  have sp: "split_on CHR '','' (join '','' (map ?g fs)) = map ?g fs"
    using assms(1) nocomma by (intro split_on_join) auto
  have pc: "list_all (\<lambda>f. parse_cond (?g f) = Some (f, CHR ''%'' # searchTerm @ [CHR ''%''])) fs"
    using assms(2)
  proof (induction fs)
    case Nil
    then show ?case by simp
  next
    case (Cons f fs)
    have "parse_cond (f @ ''.ilike.'' @ (CHR ''%'' # searchTerm @ [CHR ''%'']))
            = Some (f, CHR ''%'' # searchTerm @ [CHR ''%''])"
      using Cons.prems assms(4) by (intro parse_cond_ilike) auto
    with Cons show ?case by simp
  qed
  have "those (map parse_cond (map ?g fs))
          = Some (map (\<lambda>f. (f, CHR ''%'' # searchTerm @ [CHR ''%''])) fs)"
    using those_map_all [OF pc] by (simp add: comp_def)
  then show ?thesis
    unfolding parse_or_def orConditions_def sp .
qed

subsection \<open>Patterns without special characters\<close>

declare like.simps [simp del]

lemma like_Nil [simp]: "like [] t = (t = [])"
  by (simp add: like.simps)

lemma like_percent:
  "like (CHR ''%'' # ps) t = (like ps t \<or> (case t of [] \<Rightarrow> False | c # t' \<Rightarrow> like (CHR ''%'' # ps) t'))"
  by (simp add: like.simps)

lemma like_literal:
  "p \<noteq> CHR ''%'' \<Longrightarrow> p \<noteq> CHR 0x5C \<Longrightarrow> p \<noteq> CHR ''_'' \<Longrightarrow>
     like (p # ps) t = (case t of [] \<Rightarrow> False | c # t' \<Rightarrow> p = c \<and> like ps t')"
  by (simp add: like.simps split: list.splits)

lemma like_percent_any: "like [CHR ''%''] t"
  by (induction t) (simp_all add: like_percent)

lemma like_literal_prefix:
  "list_all (\<lambda>c. c \<noteq> CHR ''%'' \<and> c \<noteq> CHR 0x5C \<and> c \<noteq> CHR ''_'') lit \<Longrightarrow>
     like (lit @ [CHR ''%'']) t = prefix lit t"
proof (induction lit arbitrary: t)
  case Nil
  then show ?case by (simp add: like_percent_any)
next
  case (Cons c lit)
  then show ?case by (cases t) (auto simp: like_literal)
qed

lemma like_percent_suffix:
  "like (CHR ''%'' # p) t = (\<exists>ys zs. t = ys @ zs \<and> like p zs)"
proof (induction t)
  case Nil
  then show ?case by (subst like_percent) simp
next
  case (Cons c t)
  show ?case
    by (subst like_percent) (auto simp: Cons Cons_eq_append_conv)
qed

lemma like_infix:
  assumes "list_all (\<lambda>c. c \<noteq> CHR ''%'' \<and> c \<noteq> CHR 0x5C \<and> c \<noteq> CHR ''_'') lit"
  shows "like (CHR ''%'' # lit @ [CHR ''%'']) t = sublist lit t"
  by (auto simp: like_percent_suffix like_literal_prefix [OF assms] sublist_def prefix_def)

lemma toLowerCase_char_special:
  "toLowerCase_char c = CHR ''%'' \<longleftrightarrow> c = CHR ''%''"
  "toLowerCase_char c = CHR ''_'' \<longleftrightarrow> c = CHR ''_''"
  "toLowerCase_char c = CHR 0x5C \<longleftrightarrow> c = CHR 0x5C"
  by (cases c; simp add: toLowerCase_char_def add32_def Let_def; fastforce)+

lemma toLowerCase_plain:
  "list_all (\<lambda>c. c \<notin> set like_special) s \<Longrightarrow>
     list_all (\<lambda>c. c \<noteq> CHR ''%'' \<and> c \<noteq> CHR 0x5C \<and> c \<noteq> CHR ''_'') (toLowerCase s)"
  by (induction s) (auto simp: toLowerCase_def like_special_def toLowerCase_char_special)

lemma star_to_percent_plain:
  "list_all (\<lambda>c. c \<notin> set like_special) s \<Longrightarrow> star_to_percent s = s"
  by (induction s) (auto simp: star_to_percent_def like_special_def)

lemma toLowerCase_percent [simp]: "toLowerCase_char CHR ''%'' = CHR ''%''"
  by (simp add: toLowerCase_char_def)

lemma ilike_contains:
  assumes "list_all (\<lambda>c. c \<notin> set like_special) needle"
  shows "ilike (CHR ''%'' # needle @ [CHR ''%'']) v = sublist (toLowerCase needle) (toLowerCase v)"
proof -
  have "star_to_percent (CHR ''%'' # needle @ [CHR ''%'']) = CHR ''%'' # needle @ [CHR ''%'']"
    using star_to_percent_plain [OF assms] by (simp add: star_to_percent_def)
  then have "ilike (CHR ''%'' # needle @ [CHR ''%'']) v
      = like (CHR ''%'' # toLowerCase needle @ [CHR ''%'']) (toLowerCase v)"
    by (simp add: ilike_def toLowerCase_def)
  then show ?thesis
    using like_infix [OF toLowerCase_plain [OF assms]] by simp
qed

lemma column_ilike_contains:
  assumes "list_all (\<lambda>c. c \<notin> set like_special) needle"
  shows "column_ilike c (CHR ''%'' # needle @ [CHR ''%'']) t = occurs_in needle (text_column c t)"
  by (simp add: column_ilike_def occurs_in_def ilike_contains [OF assms] split: option.splits)

lemma plain_term_parts:
  "plain_term s \<Longrightarrow> list_all (\<lambda>c. c \<notin> set like_special) s \<and> CHR '','' \<notin> set s \<and> CHR '')'' \<notin> set s"
  by (induction s) (auto simp: plain_term_def)

lemma plain_pattern_iff: "plain_pattern s = list_all (\<lambda>c. c \<notin> set like_special) s"
  by (simp add: plain_pattern_def)

lemma searchable_names:
  "set fs \<subseteq> set searchableFields \<Longrightarrow>
     list_all (\<lambda>f. CHR ''.'' \<notin> set f \<and> CHR '','' \<notin> set f) fs
     \<and> list_all (\<lambda>f. f \<in> set text_columns) fs"
  by (induction fs) (auto simp: searchableFields_def text_columns_def)

lemma or_cond_holds:
  assumes "fs \<noteq> []" and "set fs \<subseteq> set searchableFields" and "plain_term q"
  shows "cond_ok ts (OrCond (orConditions fs q))"
    and "cond_holds ts (OrCond (orConditions fs q)) t
           = list_ex (\<lambda>f. occurs_in q (text_column f t)) fs"
proof -
  note p = plain_term_parts [OF assms(3)]
  note n = searchable_names [OF assms(2)]
  have parsed: "parse_or (orConditions fs q) = Some (map (\<lambda>f. (f, CHR ''%'' # q @ [CHR ''%''])) fs)"
    using assms(1) n p by (intro parse_or_orConditions) simp_all
  show "cond_ok ts (OrCond (orConditions fs q))"
    using n by (simp add: parsed list_all_iff)
  have "column_ilike f (CHR ''%'' # q @ [CHR ''%'']) t = occurs_in q (text_column f t)" for f
    using p by (intro column_ilike_contains) simp
  then show "cond_holds ts (OrCond (orConditions fs q)) t
           = list_ex (\<lambda>f. occurs_in q (text_column f t)) fs"
    by (simp add: parsed list_ex_iff)
qed

section \<open>The claims\<close>

subsection \<open>C1: create requests that fail validation\<close>

text \<open>
  The handler tests an optional field only when it is truthy. A \<^verbatim>\<open>priority\<close> or a date
  supplied as the empty string therefore passes (\<^verbatim>\<open>""\<close> matches none of low, medium, high,
  and \<^verbatim>\<open>Date.parse("")\<close> is \<^verbatim>\<open>NaN\<close>), the insert is made and the answer is 201:
\<close>

theorem post_tasks_empty_optional_counterexample:
  "toLowerCase '''' \<notin> set validPriorities
   \<and> example_dates '''' = None
   \<and> fst (post_tasks example_dates example_dates
        [''title'' \<mapsto> ''a'', ''author'' \<mapsto> ''b'', ''priority'' \<mapsto> '''', ''due_date'' \<mapsto> ''''] empty_store)
      = respond 201 (Created (Some \<lparr> task_id = ''1'', title = Some ''a'', author = Some ''b'',
            priority = None, description = None, due_date = None, start_date = None,
            created_at = 0, updated_at = None \<rparr>))
   \<and> calls (snd (post_tasks example_dates example_dates
        [''title'' \<mapsto> ''a'', ''author'' \<mapsto> ''b'', ''priority'' \<mapsto> '''', ''due_date'' \<mapsto> ''''] empty_store))
      = [OpInsert]
   \<and> length (rows (snd (post_tasks example_dates example_dates
        [''title'' \<mapsto> ''a'', ''author'' \<mapsto> ''b'', ''priority'' \<mapsto> '''', ''due_date'' \<mapsto> ''''] empty_store)))
      = 1"
  by (simp add: post_tasks_def post_tasks_model_def post_tasks_respond_def store_insert_def
      new_task_def logged_def empty_store_def example_dates_def validPriorities_def blank_def
      truthy_def text_of_def trim_def isWhiteSpace_def first_def respond_def readable_def
      text_columns_def date_columns_def digit_char_def toLowerCase_def Let_def show_nat.simps)

text \<open>
  \<^bold>\<open>C1\<close>, as the handler implements it. For a create request (fields absent or strings)
  whose \<^verbatim>\<open>title\<close> or \<^verbatim>\<open>author\<close> is missing or blank after trimming, or whose \<^emph>\<open>non-empty\<close>
  \<^verbatim>\<open>priority\<close> does not match low, medium or high without regard to case, or whose
  \<^emph>\<open>non-empty\<close> \<^verbatim>\<open>due_date\<close> or \<^verbatim>\<open>start_date\<close> does not parse as a date, or whose two
  non-empty dates are in the wrong order: the response is 400, its error message is the
  one for a condition that holds, and the store is handed back untouched, its call log
  included, so no store call was made and no row created.
\<close>

theorem post_tasks_rejects_invalid:
  assumes "blank (body ''title'') \<or> blank (body ''author'')
     \<or> (truthy (body ''priority'') \<and> toLowerCase (text_of (body ''priority'')) \<notin> set validPriorities)
     \<or> (truthy (body ''due_date'') \<and> dateParse (text_of (body ''due_date'')) = None)
     \<or> (truthy (body ''start_date'') \<and> dateParse (text_of (body ''start_date'')) = None)
     \<or> (truthy (body ''start_date'') \<and> truthy (body ''due_date'')
         \<and> date_after dateParse (text_of (body ''start_date'')) (text_of (body ''due_date'')))"
  shows "\<exists>msg. post_tasks dateParse ts body s = (respond 400 (Error msg), s)
     \<and> ((msg = ''Title is required'' \<and> blank (body ''title''))
        \<or> (msg = ''Author is required'' \<and> blank (body ''author''))
        \<or> (msg = ''Priority must be one of: low, medium, high'' \<and> truthy (body ''priority'')
            \<and> toLowerCase (text_of (body ''priority'')) \<notin> set validPriorities)
        \<or> (msg = ''Invalid due_date format'' \<and> truthy (body ''due_date'')
            \<and> dateParse (text_of (body ''due_date'')) = None)
        \<or> (msg = ''Invalid start_date format'' \<and> truthy (body ''start_date'')
            \<and> dateParse (text_of (body ''start_date'')) = None)
        \<or> (msg = ''Start date cannot be after due date'' \<and> truthy (body ''start_date'')
            \<and> truthy (body ''due_date'')
            \<and> date_after dateParse (text_of (body ''start_date'')) (text_of (body ''due_date''))))"
proof -
  let ?c1 = "blank (body ''title'')"
  let ?c2 = "blank (body ''author'')"
  let ?c3 = "truthy (body ''priority'') \<and> toLowerCase (text_of (body ''priority'')) \<notin> set validPriorities"
  let ?c4 = "truthy (body ''due_date'') \<and> dateParse (text_of (body ''due_date'')) = None"
  let ?c5 = "truthy (body ''start_date'') \<and> dateParse (text_of (body ''start_date'')) = None"
  let ?c6 = "truthy (body ''start_date'') \<and> truthy (body ''due_date'')
         \<and> date_after dateParse (text_of (body ''start_date'')) (text_of (body ''due_date''))"
  have j: "''Priority must be one of: '' @ join '', '' validPriorities
             = ''Priority must be one of: low, medium, high''"
    by (simp add: validPriorities_def)
  have early: "post_tasks dateParse ts body s = (r, s)" if "post_tasks_model dateParse body = Inl r" for r
    using that by (simp add: post_tasks_def)
  consider (1) ?c1 | (2) "\<not> ?c1" ?c2 | (3) "\<not> ?c1" "\<not> ?c2" ?c3
    | (4) "\<not> ?c1" "\<not> ?c2" "\<not> ?c3" ?c4
    | (5) "\<not> ?c1" "\<not> ?c2" "\<not> ?c3" "\<not> ?c4" ?c5
    | (6) "\<not> ?c1" "\<not> ?c2" "\<not> ?c3" "\<not> ?c4" "\<not> ?c5" ?c6
    using assms by blast
  then show ?thesis
  proof cases
    case 1
    have "post_tasks_model dateParse body = Inl (respond 400 (Error ''Title is required''))"
      unfolding post_tasks_model_def Let_def by (rule first_hit(1) [OF 1])
    then have "post_tasks dateParse ts body s = (respond 400 (Error ''Title is required''), s)"
      by (rule early)
    then show ?thesis
      using 1 by (intro exI [where x = "''Title is required''"]) simp
  next
    case 2
    have "post_tasks_model dateParse body = Inl (respond 400 (Error ''Author is required''))"
      unfolding post_tasks_model_def Let_def by (rule first_hit(2) [OF 2(1) 2(2)])
    then have "post_tasks dateParse ts body s = (respond 400 (Error ''Author is required''), s)"
      by (rule early)
    then show ?thesis
      using 2(2) by (intro exI [where x = "''Author is required''"]) simp
  next
    case 3
    have "post_tasks_model dateParse body
        = Inl (respond 400 (Error ''Priority must be one of: low, medium, high''))"
      unfolding post_tasks_model_def Let_def j by (rule first_hit(3) [OF 3(1) 3(2) 3(3)])
    then have "post_tasks dateParse ts body s = (respond 400 (Error ''Priority must be one of: low, medium, high''), s)"
      by (rule early)
    then show ?thesis
      using 3(3) by (intro exI [where x = "''Priority must be one of: low, medium, high''"]) simp
  next
    case 4
    have "post_tasks_model dateParse body = Inl (respond 400 (Error ''Invalid due_date format''))"
      unfolding post_tasks_model_def Let_def by (rule first_hit(4) [OF 4(1) 4(2) 4(3) 4(4)])
    then have "post_tasks dateParse ts body s = (respond 400 (Error ''Invalid due_date format''), s)"
      by (rule early)
    then show ?thesis
      using 4(4) by (intro exI [where x = "''Invalid due_date format''"]) simp
  next
    case 5
    have "post_tasks_model dateParse body = Inl (respond 400 (Error ''Invalid start_date format''))"
      unfolding post_tasks_model_def Let_def by (rule first_hit(5) [OF 5(1) 5(2) 5(3) 5(4) 5(5)])
    then have "post_tasks dateParse ts body s = (respond 400 (Error ''Invalid start_date format''), s)"
      by (rule early)
    then show ?thesis
      using 5(5) by (intro exI [where x = "''Invalid start_date format''"]) simp
  next
    case 6
    have "post_tasks_model dateParse body
        = Inl (respond 400 (Error ''Start date cannot be after due date''))"
      unfolding post_tasks_model_def Let_def by (rule first_hit(6) [OF 6(1) 6(2) 6(3) 6(4) 6(5) 6(6)])
    then have "post_tasks dateParse ts body s = (respond 400 (Error ''Start date cannot be after due date''), s)"
      by (rule early)
    then show ?thesis
      using 6(6) by (intro exI [where x = "''Start date cannot be after due date''"]) simp
  qed
qed

text \<open>The theorem at a request whose start date lies after its due date.\<close>

theorem post_tasks_rejects_invalid_witness:
  "\<exists>msg. post_tasks example_dates example_dates
       [''title'' \<mapsto> ''Write spec'', ''author'' \<mapsto> ''Ada'', ''start_date'' \<mapsto> ''2024-01-10'',
        ''due_date'' \<mapsto> ''2024-01-01''] empty_store
     = (respond 400 (Error msg), empty_store) \<and> msg = ''Start date cannot be after due date''"
  using post_tasks_rejects_invalid [of "[''title'' \<mapsto> ''Write spec'', ''author'' \<mapsto> ''Ada'',
        ''start_date'' \<mapsto> ''2024-01-10'', ''due_date'' \<mapsto> ''2024-01-01'']"
        example_dates example_dates empty_store]
  by (simp add: blank_def truthy_def text_of_def trim_def isWhiteSpace_def date_after_def
      example_dates_def)

subsection \<open>C2: the paginated list\<close>

text \<open>
  \<^verbatim>\<open>parseInt(limit) || 10\<close> replaces a parsed \<open>0\<close> by the default before the clamp is
  applied, so \<^verbatim>\<open>limit=0\<close> yields pages of 10 rows where clamping \<open>0\<close> to [1,100] gives 1:
\<close>

theorem list_limit_zero_counterexample:
  "parseInt (Some ''0'') = Some (Fin 0)
   \<and> clamped_limit 10 (Some ''0'') = 1
   \<and> fst (list_tasks example_dates [''limit'' \<mapsto> ''0''] one_task_store)
       = respond 200 (Page [spec_task] \<lparr> page = Fin 1, limit = 10, total = 1, totalPages = 1 \<rparr>)"
  by code_simp

text \<open>
  \<^bold>\<open>C2\<close>, as the handler implements it. With \<open>L\<close> the effective limit and \<open>P\<close> the
  effective page of a list request: \<open>L\<close> lies in [1,100]; it is 10 when \<^verbatim>\<open>limit\<close> is
  absent, has no leading integer or parses to \<open>0\<close>, and the parsed value clamped to
  [1,100] otherwise; \<open>P\<close> is 1 by default and the parsed value floored at 1 otherwise
  (the parsed value being the double nearest to the integer written).
  Where \<open>P * L\<close> lies below \<open>2^53\<close>, so that the handler's double arithmetic is exact, the
  window requested is \<open>[(P-1)*L, (P-1)*L + L - 1]\<close>. Against a store that answers and
  holds fewer than \<open>2^47\<close> rows: the response is 200 with the rows of that window, at most
  \<open>L\<close> of them, \<open>total\<close> the number of all rows, \<open>totalPages\<close> the ceiling of
  \<open>total / L\<close>, and an empty array for a page beyond \<open>totalPages\<close>.
\<close>

theorem list_tasks_pagination:
  assumes "down s = None"
    and "L = pageLimit 10 (req ''limit'')"
    and "pageNumber (req ''page'') = Fin P"
    and "P * L < 2 ^ 53"
    and "n = length (rows s)"
    and "n < 2 ^ 47"
  shows "1 \<le> L \<and> L \<le> 100
    \<and> L = (case parseInt (req ''limit'') of
             None \<Rightarrow> 10
           | Some (Fin k) \<Rightarrow> if k = 0 then 10 else min (max k 1) 100
           | Some PosInf \<Rightarrow> 100
           | Some NegInf \<Rightarrow> 1)
    \<and> 1 \<le> P
    \<and> Fin P = (case parseInt (req ''page'') of
                 None \<Rightarrow> Fin 1
               | Some (Fin k) \<Rightarrow> Fin (max k 1)
               | Some PosInf \<Rightarrow> PosInf
               | Some NegInf \<Rightarrow> Fin 1)
    \<and> window (list_query req) = Some (Some (Fin ((P - 1) * L)), Some (Fin ((P - 1) * L + L - 1)))
    \<and> list_tasks ts req s
        = (respond 200
            (Page (take (nat L) (drop (nat ((P - 1) * L)) (rows s)))
               \<lparr> page = Fin P, limit = L, total = n,
                 totalPages = \<lceil>real n / real_of_int L\<rceil> \<rparr>),
           logged OpSelect s)
    \<and> length (take (nat L) (drop (nat ((P - 1) * L)) (rows s))) \<le> nat L
    \<and> (\<lceil>real n / real_of_int L\<rceil> < P \<longrightarrow> take (nat L) (drop (nat ((P - 1) * L)) (rows s)) = [])"
proof -
  have r: "1 \<le> L \<and> L \<le> 100" using assms(2) pageLimit_range by simp
  have l: "L = (case parseInt (req ''limit'') of
             None \<Rightarrow> 10
           | Some (Fin k) \<Rightarrow> if k = 0 then 10 else min (max k 1) 100
           | Some PosInf \<Rightarrow> 100
           | Some NegInf \<Rightarrow> 1)"
    unfolding assms(2) by (subst pageLimit_cases) (simp split: option.splits number.splits)
  have p1: "1 \<le> P" using assms(3) by (rule pageNumber_positive)
  have p: "Fin P = (case parseInt (req ''page'') of
                 None \<Rightarrow> Fin 1
               | Some (Fin k) \<Rightarrow> Fin (max k 1)
               | Some PosInf \<Rightarrow> PosInf
               | Some NegInf \<Rightarrow> Fin 1)"
    using assms(3) by (simp only: pageNumber_cases)
  have pw: "page_window (pageNumber (req ''page'')) (pageLimit 10 (req ''limit''))
      = (Some (Fin ((P - 1) * L)), Some (Fin ((P - 1) * L + L - 1)))"
    unfolding assms(3) assms(2) [symmetric]
    using p1 r assms(4) by (intro page_window_exact) simp_all
  have w: "window (list_query req) = Some (Some (Fin ((P - 1) * L)), Some (Fin ((P - 1) * L + L - 1)))"
    by (simp add: list_query_def pw)
  have sl: "slice (page_window (pageNumber (req ''page'')) (pageLimit 10 (req ''limit''))) (rows s)
      = take (nat L) (drop (nat ((P - 1) * L)) (rows s))"
    unfolding pw by (simp add: slice_integers)
  have t: "list_tasks ts req s
        = (respond 200
            (Page (take (nat L) (drop (nat ((P - 1) * L)) (rows s)))
               \<lparr> page = Fin P, limit = L, total = n,
                 totalPages = \<lceil>real n / real_of_int L\<rceil> \<rparr>),
           logged OpSelect s)"
    using assms(1) sl
    by (simp add: list_tasks_def Let_def store_select_list ceil_div_ceiling assms(3)
        assms(2,5) [symmetric])
  have len: "length (take (nat L) (drop (nat ((P - 1) * L)) (rows s))) \<le> nat L" by simp
  have beyond: "take (nat L) (drop (nat ((P - 1) * L)) (rows s)) = []"
    if "\<lceil>real n / real_of_int L\<rceil> < P"
  proof -
    have "ceil_div (int n) L \<le> P - 1" using that by (simp add: ceil_div_ceiling)
    then have "ceil_div (int n) L * L \<le> (P - 1) * L" using r by (simp add: mult_right_mono)
    moreover have "int n \<le> ceil_div (int n) L * L" using r by (intro ceil_div_covers) simp
    ultimately have "int n \<le> (P - 1) * L" by linarith
    then have "length (rows s) \<le> nat ((P - 1) * L)" using assms(5) by linarith
    then show ?thesis by simp
  qed
  from r l p1 p w t len beyond show ?thesis by blast
qed

text \<open>The theorem at \<^verbatim>\<open>limit=5&page=2\<close> on a store of one row: page 2 lies beyond the
  single page there is, and comes back empty with status 200.\<close>

theorem list_tasks_pagination_witness:
  "list_tasks example_dates [''limit'' \<mapsto> ''5'', ''page'' \<mapsto> ''2''] one_task_store
     = (respond 200 (Page [] \<lparr> page = Fin 2, limit = 5, total = 1, totalPages = 1 \<rparr>),
        logged OpSelect one_task_store)
   \<and> window (list_query [''limit'' \<mapsto> ''5'', ''page'' \<mapsto> ''2'']) = Some (Some (Fin 5), Some (Fin 9))"
proof -
  have L: "(5::int) = pageLimit 10 ([''limit'' \<mapsto> ''5'', ''page'' \<mapsto> ''2''] ''limit'')"
    by code_simp
  have P: "pageNumber ([''limit'' \<mapsto> ''5'', ''page'' \<mapsto> ''2''] ''page'') = Fin 2"
    by code_simp
  have b: "(2::int) * 5 < 2 ^ 53" by simp
  have d: "down one_task_store = None" by (simp add: one_task_store_def)
  have n: "(1::nat) = length (rows one_task_store)" by (simp add: one_task_store_def)
  have m: "(1::nat) < 2 ^ 47" by simp
  have c: "\<lceil>(1::real) / 5\<rceil> = 1" by (rule ceiling_unique) simp_all
  show ?thesis
    using c
      list_tasks_pagination [where s = one_task_store and ts = example_dates and L = 5 and P = 2
        and n = 1 and req = "[''limit'' \<mapsto> ''5'', ''page'' \<mapsto> ''2'']", OF d L P b n m]
    by (simp add: one_task_store_def)
qed

subsection \<open>C3: which rows a search matches\<close>

text \<open>
  The term is placed into the pattern \<^verbatim>\<open>%term%\<close> as it is, so the pattern characters in
  it keep their meaning. The term \<^verbatim>\<open>_\<close> matches every row with a non-empty searchable
  field, including one none of whose fields contains an underscore:
\<close>

theorem search_underscore_counterexample:
  "data_rows (fst (tasks_search example_dates [''q'' \<mapsto> ''_''] one_task_store)) = [spec_task]
   \<and> \<not> spec_search_match example_dates [''q'' \<mapsto> ''_''] spec_task
   \<and> \<not> sublist ''_'' ''write spec'' \<and> \<not> sublist ''_'' ''ada'' \<and> \<not> sublist ''_'' ''high''"
  by code_simp

text \<open>
  \<^bold>\<open>C3\<close>, as the handler implements it. For a search request that passes validation,
  whose selected fields are written exactly as the four field names, whose trimmed term
  contains none of the characters \<^verbatim>\<open>% _ * \ , )\<close>, whose trimmed author filter contains
  none of \<^verbatim>\<open>% _ * \\<close>, and whose supplied date bounds the store can read: the rows the
  query matches are exactly the stored rows in which the term occurs, without regard to
  case, in at least one selected field and for which every supplied structured filter
  holds. The response is 200, carries the window of these rows in the requested order,
  and reports their number.
\<close>

theorem search_matches_iff:
  assumes "\<not> blank (req ''q'')"
    and "fieldsToSearch (req ''fields'') \<noteq> []"
    and "set (fieldsToSearch (req ''fields'')) \<subseteq> set searchableFields"
    and "plain_term (trim (text_of (req ''q'')))"
    and "plain_pattern (trim (text_of (req ''author'')))"
    and "list_all (\<lambda>k. truthy (req k) \<longrightarrow> ts (text_of (req k)) \<noteq> None)
           [''start_date_from'', ''start_date_to'', ''due_date_from'', ''due_date_to'']"
    and "down s = None"
  shows "matching ts (conds (search_query req)) (rows s) = filter (spec_search_match ts req) (rows s)
     \<and> tasks_search ts req s
          = (respond 200
               (SearchPage
                  (slice (page_window (pageNumber (req ''page'')) (pageLimit 20 (req ''limit'')))
                     (order_rows ts (search_sortField (req ''sort''), req ''order'' = Some ''asc'', None)
                        (filter (spec_search_match ts req) (rows s))))
                  \<lparr> search_term = trim (text_of (req ''q'')),
                    search_fields = fieldsToSearch (req ''fields''),
                    search_filters = appliedFilters req,
                    resultsCount = length (filter (spec_search_match ts req) (rows s)) \<rparr>
                  \<lparr> page = pageNumber (req ''page''), limit = pageLimit 20 (req ''limit''),
                    total = length (filter (spec_search_match ts req) (rows s)),
                    totalPages = ceil_div (int (length (filter (spec_search_match ts req) (rows s))))
                                   (pageLimit 20 (req ''limit'')) \<rparr>
                  (search_sortField (req ''sort''),
                   if truthy (req ''order'') then text_of (req ''order'') else ''desc'')),
             logged OpSelect s)"
proof -
  let ?q = "trim (text_of (req ''q''))"
  let ?fs = "fieldsToSearch (req ''fields'')"
  note oc = or_cond_holds [OF assms(2,3,4)]
  have author_ok: "list_all (cond_ok ts) (author_filter req)"
    by (simp add: author_filter_def text_columns_def)
  have author_holds: "list_all (\<lambda>c. cond_holds ts c t) (author_filter req)
      = (truthy (req ''author'') \<longrightarrow> occurs_in (trim (text_of (req ''author''))) (author t))" for t
    using column_ilike_contains [OF assms(5) [unfolded plain_pattern_iff], of "''author''" t]
    by (simp add: author_filter_def text_column_def)
  have dates_ok: "list_all (cond_ok ts) (date_filters req)"
    using assms(6) by (simp add: date_filters_def date_columns_def)
  have dates_hold: "list_all (\<lambda>c. cond_holds ts c t) (date_filters req)
      = ((truthy (req ''start_date_from'') \<longrightarrow>
           date_cmp ts (\<lambda>x y. x \<ge> y) (start_date t) (text_of (req ''start_date_from'')))
      \<and> (truthy (req ''start_date_to'') \<longrightarrow>
           date_cmp ts (\<lambda>x y. x \<le> y) (start_date t) (text_of (req ''start_date_to'')))
      \<and> (truthy (req ''due_date_from'') \<longrightarrow>
           date_cmp ts (\<lambda>x y. x \<ge> y) (due_date t) (text_of (req ''due_date_from'')))
      \<and> (truthy (req ''due_date_to'') \<longrightarrow>
           date_cmp ts (\<lambda>x y. x \<le> y) (due_date t) (text_of (req ''due_date_to''))))" for t
    by (simp add: date_filters_def date_column_def)
  let ?prio = "if truthy (req ''priority'')
        then [InCond ''priority'' (search_priorities (text_of (req ''priority'')))] else []"
  have prio_ok: "list_all (cond_ok ts) ?prio"
    by (simp add: text_columns_def)
  have prio_holds: "list_all (\<lambda>c. cond_holds ts c t) ?prio
      = (truthy (req ''priority'') \<longrightarrow>
           (case priority t of
              None \<Rightarrow> False
            | Some p \<Rightarrow> p \<in> set (map trim (split_on CHR '','' (text_of (req ''priority''))))))" for t
    by (simp add: search_priorities_def text_column_def)
  have seg: "conds (search_query req)
      = [OrCond (orConditions ?fs ?q)] @ ?prio @ author_filter req @ date_filters req"
    by (simp add: search_query_def search_conds_def)
  have all_ok: "list_all (cond_ok ts) (conds (search_query req))"
    unfolding seg list_all_append using oc(1) prio_ok author_ok dates_ok by simp
  have holds: "list_all (\<lambda>c. cond_holds ts c t) (conds (search_query req)) = spec_search_match ts req t" for t
    unfolding seg list_all_append prio_holds author_holds dates_hold spec_search_match_def
    using oc(2) [of ts t] by (simp del: cond_holds.simps)
  have m: "matching ts (conds (search_query req)) (rows s) = filter (spec_search_match ts req) (rows s)"
    by (simp add: matching_def holds)
  have col: "search_sortField (req ''sort'') \<in> set columns"
    by (auto simp: search_sortField_def validSortFields_def searchableFields_def columns_def
        text_columns_def date_columns_def)
  have sel: "store_select ts (search_query req) s
      = (Inr (slice (page_window (pageNumber (req ''page'')) (pageLimit 20 (req ''limit'')))
               (order_rows ts (search_sortField (req ''sort''), req ''order'' = Some ''asc'', None)
                  (filter (spec_search_match ts req) (rows s))),
              length (filter (spec_search_match ts req) (rows s))),
         logged OpSelect s)"
    using assms(7) all_ok col m
    by (simp add: store_select_def Let_def) (simp add: search_query_def)
  show ?thesis
    using assms(1,2) m by (simp add: tasks_search_def sel Let_def)
qed

text \<open>The theorem at a search for \<^verbatim>\<open>SPEC\<close> in title and description, with a priority
  list, an author filter and an upper bound on the due date, on the scenario's store.\<close>

theorem search_matches_iff_witness:
  "matching example_dates (conds (search_query example_search)) (rows one_task_store) = [spec_task]
   \<and> spec_search_match example_dates example_search spec_task"
proof -
  have h1: "\<not> blank (example_search ''q'')" by code_simp
  have h2: "fieldsToSearch (example_search ''fields'') \<noteq> []" by code_simp
  have h3: "set (fieldsToSearch (example_search ''fields'')) \<subseteq> set searchableFields" by code_simp
  have h4: "plain_term (trim (text_of (example_search ''q'')))" by code_simp
  have h5: "plain_pattern (trim (text_of (example_search ''author'')))" by code_simp
  have h6: "list_all (\<lambda>k. truthy (example_search k) \<longrightarrow> example_dates (text_of (example_search k)) \<noteq> None)
           [''start_date_from'', ''start_date_to'', ''due_date_from'', ''due_date_to'']" by code_simp
  have h7: "down one_task_store = None" by code_simp
  have f: "filter (spec_search_match example_dates example_search) (rows one_task_store) = [spec_task]"
    by code_simp
  have g: "spec_search_match example_dates example_search spec_task" by code_simp
  from search_matches_iff [OF h1 h2 h3 h4 h5 h6 h7] f g show ?thesis by simp
qed

subsection \<open>C4: fetching an identifier that has no row\<close>

text \<open>
  \<^bold>\<open>C4\<close>. When the store finds no row for the identifier, \<^verbatim>\<open>GET /tasks/:id\<close> passes the
  store's error on with status 500, as it does for every other store error; it is
  \<^verbatim>\<open>PATCH\<close> and \<^verbatim>\<open>DELETE\<close> that answer the same store error with 404 ``Task not found''.
  The not-found signal the claim describes is therefore not what this handler sends.
\<close>

theorem get_task_no_row_is_500:
  assumes "ident \<noteq> []" and "down s = None"
    and "filter (\<lambda>t. task_id t = ident) (rows s) = []"
  shows "get_task ident s = (respond 500 (Error (error_message no_single_row)), logged OpSelect s)
     \<and> status (fst (get_task ident s)) \<noteq> 404
     \<and> fst (patch_task ts ident updates s) = respond 404 (Error ''Task not found'')
     \<and> fst (delete_task ident s) = respond 404 (Error ''Task not found'')"
  using assms
  by (simp add: get_task_def patch_task_def delete_task_def store_single_none_healthy respond_def)

text \<open>The theorem at identifier 42 on the empty store.\<close>

theorem get_task_no_row_is_500_witness:
  "get_task ''42'' empty_store
     = (respond 500 (Error ''JSON object requested, multiple (or no) rows returned''),
        logged OpSelect empty_store)
   \<and> fst (delete_task ''42'' empty_store) = respond 404 (Error ''Task not found'')"
  using get_task_no_row_is_500 [of "''42''" empty_store]
  by (simp add: empty_store_def no_single_row_def)

subsection \<open>C5: what a valid create request stores\<close>

text \<open>
  The model is built with \<^verbatim>\<open>...(priority && { priority: priority.toLowerCase() })\<close>, so
  an optional field that the body supplies as the empty string is left out like one that
  is not supplied. A priority supplied as \<^verbatim>\<open>""\<close> passes validation and is not stored
  lower-cased: the row holds no priority at all.
\<close>

theorem post_tasks_empty_priority_counterexample:
  "[''title'' \<mapsto> ''Write spec'', ''author'' \<mapsto> ''Ada'', ''priority'' \<mapsto> ''''] ''priority'' = Some ''''
   \<and> post_tasks_model example_dates [''title'' \<mapsto> ''Write spec'', ''author'' \<mapsto> ''Ada'', ''priority'' \<mapsto> '''']
        = Inr [(''title'', ''Write spec''), (''author'', ''Ada'')]
   \<and> fst (post_tasks example_dates example_dates
        [''title'' \<mapsto> ''Write spec'', ''author'' \<mapsto> ''Ada'', ''priority'' \<mapsto> ''''] empty_store)
      = respond 201 (Created (Some \<lparr> task_id = ''1'', title = Some ''Write spec'', author = Some ''Ada'',
            priority = None, description = None, due_date = None, start_date = None,
            created_at = 0, updated_at = None \<rparr>))"
  by code_simp

text \<open>
  \<^bold>\<open>C5\<close>, as the handler implements it. When a create request passes validation, the
  model handed to the store has only keys that the body supplies; \<^verbatim>\<open>title\<close> and
  \<^verbatim>\<open>author\<close> are the inputs without the white space at their ends, and are not empty;
  an optional field is forwarded exactly when it is supplied and non-empty,
  \<^verbatim>\<open>description\<close> trimmed, \<^verbatim>\<open>priority\<close> lower-cased (one of low, medium, high), the
  dates as given, and is left out (not sent as null) otherwise. When the insert
  succeeds, the response is 201 and carries the created row, which holds the identifier
  and the creation time the store assigned and the fields of the model.
\<close>

theorem post_tasks_forwards_supplied_fields:
  assumes "post_tasks_model dateParse body = Inr model"
  shows "fst ` set model \<subseteq> dom body
    \<and> map_of model ''title'' = Some (trim (text_of (body ''title'')))
    \<and> map_of model ''author'' = Some (trim (text_of (body ''author'')))
    \<and> map_of model ''priority'' =
           (if truthy (body ''priority'') then Some (toLowerCase (text_of (body ''priority''))) else None)
    \<and> map_of model ''description'' =
           (if truthy (body ''description'') then Some (trim (text_of (body ''description''))) else None)
    \<and> map_of model ''due_date'' = (if truthy (body ''due_date'') then body ''due_date'' else None)
    \<and> map_of model ''start_date'' = (if truthy (body ''start_date'') then body ''start_date'' else None)
    \<and> list_all (\<lambda>k. case map_of model k of None \<Rightarrow> True | Some v \<Rightarrow> trimmed_of (text_of (body k)) v)
         [''title'', ''author'', ''description'']
    \<and> map_of model ''title'' \<noteq> Some [] \<and> map_of model ''author'' \<noteq> Some []
    \<and> (case map_of model ''priority'' of None \<Rightarrow> True | Some p \<Rightarrow> p \<in> set validPriorities)
    \<and> (\<forall>rs s'. store_insert ts model s = (Inr rs, s') \<longrightarrow>
           post_tasks dateParse ts body s = (respond 201 (Created (Some (new_task model s))), s')
           \<and> rs = [new_task model s]
           \<and> rows s' = rows s @ [new_task model s]
           \<and> task_id (new_task model s) = show_nat (next_id s)
           \<and> created_at (new_task model s) = clock s
           \<and> title (new_task model s) = map_of model ''title''
           \<and> author (new_task model s) = map_of model ''author''
           \<and> priority (new_task model s) = map_of model ''priority''
           \<and> description (new_task model s) = map_of model ''description''
           \<and> due_date (new_task model s) = map_of model ''due_date''
           \<and> start_date (new_task model s) = map_of model ''start_date'')"
proof -
  note m = post_tasks_model_Inr_exact [OF assms]
  note v = post_tasks_model_Inr_valid [OF assms]
  note pv = post_tasks_model_Inr_priority [OF assms]
  have d1: "''title'' \<in> dom body" using v by (intro not_blank_dom) (rule conjunct1)
  have d2: "''author'' \<in> dom body" using v by (intro not_blank_dom) (rule conjunct2)
  have o: "truthy (body k) \<longrightarrow> k \<in> dom body" for k
    by (rule impI) (rule truthy_dom)
  have "list_all (\<lambda>kv. fst kv \<in> dom body) model"
    by (subst m) (simp add: d1 d2 o)
  then have 1: "fst ` set model \<subseteq> dom body"
    by (simp add: list_all_iff image_subset_iff)
  have 2: "map_of model ''title'' = Some (trim (text_of (body ''title'')))" by (subst m) simp
  have 3: "map_of model ''author'' = Some (trim (text_of (body ''author'')))" by (subst m) simp
  have 4: "map_of model ''priority'' =
           (if truthy (body ''priority'') then Some (toLowerCase (text_of (body ''priority''))) else None)"
    by (subst m) simp
  have 5: "map_of model ''description'' =
           (if truthy (body ''description'') then Some (trim (text_of (body ''description''))) else None)"
    by (subst m) simp
  have 6: "map_of model ''due_date'' = (if truthy (body ''due_date'') then body ''due_date'' else None)"
  proof (cases "body ''due_date''")
    case None
    then show ?thesis by (subst m) (simp add: truthy_def)
  next
    case (Some d)
    then show ?thesis by (subst m) (simp add: truthy_def text_of_def)
  qed
  have 7: "map_of model ''start_date'' = (if truthy (body ''start_date'') then body ''start_date'' else None)"
  proof (cases "body ''start_date''")
    case None
    then show ?thesis by (subst m) (simp add: truthy_def)
  next
    case (Some d)
    then show ?thesis by (subst m) (simp add: truthy_def text_of_def)
  qed
  have 8: "list_all (\<lambda>k. case map_of model k of None \<Rightarrow> True | Some v \<Rightarrow> trimmed_of (text_of (body k)) v)
         [''title'', ''author'', ''description'']"
    by (simp add: 2 3 5 trim_trimmed_of)
  have 9: "map_of model ''title'' \<noteq> Some []"
    unfolding 2 using not_blank_trim [OF conjunct1 [OF v]] by simp
  have 10: "map_of model ''author'' \<noteq> Some []"
    unfolding 3 using not_blank_trim [OF conjunct2 [OF v]] by simp
  have 11: "case map_of model ''priority'' of None \<Rightarrow> True | Some p \<Rightarrow> p \<in> set validPriorities"
    unfolding 4 using pv by (simp del: set_simps)
  have 12: "\<forall>rs s'. store_insert ts model s = (Inr rs, s') \<longrightarrow>
           post_tasks dateParse ts body s = (respond 201 (Created (Some (new_task model s))), s')
           \<and> rs = [new_task model s]
           \<and> rows s' = rows s @ [new_task model s]
           \<and> task_id (new_task model s) = show_nat (next_id s)
           \<and> created_at (new_task model s) = clock s
           \<and> title (new_task model s) = map_of model ''title''
           \<and> author (new_task model s) = map_of model ''author''
           \<and> priority (new_task model s) = map_of model ''priority''
           \<and> description (new_task model s) = map_of model ''description''
           \<and> due_date (new_task model s) = map_of model ''due_date''
           \<and> start_date (new_task model s) = map_of model ''start_date''"
  proof (intro allI impI)
    fix rs s'
    assume i: "store_insert ts model s = (Inr rs, s')"
    note r = store_insert_Inr [OF i]
    have "post_tasks dateParse ts body s = (post_tasks_respond (Inr rs), s')"
      by (simp add: post_tasks_def assms i)
    moreover have "post_tasks_respond (Inr rs) = respond 201 (Created (Some (new_task model s)))"
      using r by (simp add: post_tasks_respond_def first_def)
    moreover have "rows s' = rows s @ [new_task model s]"
      using r by simp
    ultimately show "post_tasks dateParse ts body s = (respond 201 (Created (Some (new_task model s))), s')
           \<and> rs = [new_task model s]
           \<and> rows s' = rows s @ [new_task model s]
           \<and> task_id (new_task model s) = show_nat (next_id s)
           \<and> created_at (new_task model s) = clock s
           \<and> title (new_task model s) = map_of model ''title''
           \<and> author (new_task model s) = map_of model ''author''
           \<and> priority (new_task model s) = map_of model ''priority''
           \<and> description (new_task model s) = map_of model ''description''
           \<and> due_date (new_task model s) = map_of model ''due_date''
           \<and> start_date (new_task model s) = map_of model ''start_date''"
      using r by (simp add: new_task_def)
  qed
  show ?thesis
    by (rule conjI [OF 1 conjI [OF 2 conjI [OF 3 conjI [OF 4 conjI [OF 5 conjI [OF 6 conjI [OF 7
          conjI [OF 8 conjI [OF 9 conjI [OF 10 conjI [OF 11 12]]]]]]]]]]])
qed

text \<open>The theorem at a request whose title, author and description carry white space at
  their ends and whose priority is written \<^verbatim>\<open>High\<close>, and at the specification's scenario:
  the texts are stored trimmed, the priority as \<^verbatim>\<open>high\<close>, and the row comes back with
  status 201.\<close>

theorem post_tasks_forwards_supplied_fields_witness:
  "post_tasks example_dates example_dates padded_body empty_store
     = (respond 201 (Created (Some padded_task)),
        \<lparr> rows = [padded_task], next_id = 2, clock = 1, down = None, calls = [OpInsert] \<rparr>)
   \<and> title padded_task = Some ''Write spec''
   \<and> trimmed_of ''  Write spec '' ''Write spec''
   \<and> post_tasks example_dates example_dates scenario_body empty_store
     = (respond 201 (Created (Some spec_task)),
        \<lparr> rows = [spec_task], next_id = 2, clock = 1, down = None, calls = [OpInsert] \<rparr>)"
proof -
  let ?pm = "[(''title'', ''Write spec''), (''author'', ''Ada''), (''priority'', ''high''),
            (''description'', ''first draft''), (''due_date'', ''2024-01-10'')]"
  let ?sm = "[(''title'', ''Write spec''), (''author'', ''Ada''), (''priority'', ''high''),
            (''due_date'', ''2024-01-10''), (''start_date'', ''2024-01-01'')]"
  have pm: "post_tasks_model example_dates padded_body = Inr ?pm" by code_simp
  have pinsert: "store_insert example_dates ?pm empty_store
     = (Inr [padded_task], \<lparr> rows = [padded_task], next_id = 2, clock = 1, down = None, calls = [OpInsert] \<rparr>)"
    by code_simp
  have pt: "new_task ?pm empty_store = padded_task" by code_simp
  have ptitle: "text_of (padded_body ''title'') = ''  Write spec ''" by code_simp
  have sm: "post_tasks_model example_dates scenario_body = Inr ?sm" by code_simp
  have sinsert: "store_insert example_dates ?sm empty_store
     = (Inr [spec_task], \<lparr> rows = [spec_task], next_id = 2, clock = 1, down = None, calls = [OpInsert] \<rparr>)"
    by code_simp
  have st: "new_task ?sm empty_store = spec_task" by code_simp
  have tt: "title padded_task = Some ''Write spec''" by (simp add: padded_task_def)
  have A: "post_tasks example_dates example_dates padded_body empty_store
     = (respond 201 (Created (Some padded_task)),
        \<lparr> rows = [padded_task], next_id = 2, clock = 1, down = None, calls = [OpInsert] \<rparr>)"
    using post_tasks_forwards_supplied_fields [OF pm, of example_dates empty_store] pinsert pt by simp
  have B: "trimmed_of ''  Write spec '' ''Write spec''"
    using post_tasks_forwards_supplied_fields [OF pm, of example_dates empty_store, THEN conjunct2, THEN conjunct2,
        THEN conjunct2, THEN conjunct2, THEN conjunct2, THEN conjunct2, THEN conjunct2,
        THEN conjunct1] ptitle
    by simp
  have C: "post_tasks example_dates example_dates scenario_body empty_store
     = (respond 201 (Created (Some spec_task)),
        \<lparr> rows = [spec_task], next_id = 2, clock = 1, down = None, calls = [OpInsert] \<rparr>)"
    using post_tasks_forwards_supplied_fields [OF sm, of example_dates empty_store] sinsert st by simp
  show ?thesis by (rule conjI [OF A conjI [OF tt conjI [OF B C]]])
qed

subsection \<open>C6: validation of a search request\<close>

text \<open>
  The \<^verbatim>\<open>fields\<close> parameter is inspected only when it is truthy
  (\<^verbatim>\<open>fields ? ... : searchableFields\<close>). So \<^verbatim>\<open>fields=\<close> (supplied, empty), whose one
  entry is none of the four names, selects all four fields with status 200 instead of
  being answered with 400:
\<close>

theorem search_fields_counterexample:
  "[''q'' \<mapsto> ''spec'', ''fields'' \<mapsto> ''''] ''fields'' = Some ''''
   \<and> filter (\<lambda>e. e \<in> set [''title'', ''description'', ''author'', ''priority'']) (split_on CHR '','' '''') = []
   \<and> fieldsToSearch (Some '''') = [''title'', ''description'', ''author'', ''priority'']
   \<and> status (fst (tasks_search example_dates [''q'' \<mapsto> ''spec'', ''fields'' \<mapsto> ''''] one_task_store)) = 200"
  by code_simp

text \<open>
  \<^bold>\<open>C6\<close>, as the handler implements it. A search request whose \<^verbatim>\<open>q\<close> is missing or
  blank after trimming gets 400, whatever its other parameters. A non-empty \<^verbatim>\<open>fields\<close>
  none of whose comma-separated entries is a field name with white space around it:
  the entries that are not one of title, description, author, priority are dropped and
  the others kept; when none is kept the response is 400, lists the four names, and the
  store is not asked; otherwise the store is asked. When \<^verbatim>\<open>fields\<close> is absent or
  empty, the query searches all four fields.
\<close>

theorem search_validation:
  "(blank (req ''q'') \<longrightarrow>
      tasks_search ts req s = (respond 400 (Error ''Query parameter q is required''), s))
   \<and> (truthy (req ''fields'') \<and> \<not> list_ex padded_name (split_on CHR '','' (text_of (req ''fields''))) \<longrightarrow>
      fieldsToSearch (req ''fields'')
        = filter (\<lambda>e. e \<in> set [''title'', ''description'', ''author'', ''priority''])
            (split_on CHR '','' (text_of (req ''fields'')))
      \<and> (\<not> blank (req ''q'')
           \<and> \<not> list_ex (\<lambda>e. e \<in> set [''title'', ''description'', ''author'', ''priority''])
                  (split_on CHR '','' (text_of (req ''fields''))) \<longrightarrow>
          tasks_search ts req s
            = (respond 400 (Error ''Invalid fields. Available: title, description, author, priority''), s))
      \<and> (\<not> blank (req ''q'')
           \<and> list_ex (\<lambda>e. e \<in> set [''title'', ''description'', ''author'', ''priority''])
                  (split_on CHR '','' (text_of (req ''fields''))) \<longrightarrow>
          snd (tasks_search ts req s) = logged OpSelect s
          \<and> (status (fst (tasks_search ts req s)) = 200 \<or> status (fst (tasks_search ts req s)) = 500)))
   \<and> (\<not> truthy (req ''fields'') \<longrightarrow>
      hd (conds (search_query req))
        = OrCond (''title.ilike.%'' @ trim (text_of (req ''q'')) @ ''%,description.ilike.%''
                  @ trim (text_of (req ''q'')) @ ''%,author.ilike.%'' @ trim (text_of (req ''q''))
                  @ ''%,priority.ilike.%'' @ trim (text_of (req ''q'')) @ ''%'')
      \<and> (\<not> blank (req ''q'') \<longrightarrow>
          snd (tasks_search ts req s) = logged OpSelect s
          \<and> (status (fst (tasks_search ts req s)) = 200 \<or> status (fst (tasks_search ts req s)) = 500)))"
proof -
  let ?es = "split_on CHR '','' (text_of (req ''fields''))"
  let ?four = "[''title'', ''description'', ''author'', ''priority'']"
  have A: "blank (req ''q'') \<longrightarrow>
      tasks_search ts req s = (respond 400 (Error ''Query parameter q is required''), s)"
    by (simp add: tasks_search_def)
  have B: "fieldsToSearch (req ''fields'') = filter (\<lambda>e. e \<in> set ?four) ?es"
    if "truthy (req ''fields'')" "\<not> list_ex padded_name ?es"
    using that(1) unpadded_filter [OF that(2)] by (simp only: fieldsToSearch_def if_True)
  have C: "tasks_search ts req s
            = (respond 400 (Error ''Invalid fields. Available: title, description, author, priority''), s)"
    if "truthy (req ''fields'')" "\<not> list_ex padded_name ?es" "\<not> blank (req ''q'')"
       "\<not> list_ex (\<lambda>e. e \<in> set ?four) ?es"
  proof -
    have "filter (\<lambda>e. e \<in> set ?four) ?es = []"
      using that(4) by (simp add: list_ex_iff filter_empty_conv)
    then have "fieldsToSearch (req ''fields'') = []" using B [OF that(1,2)] by simp
    then show ?thesis using that(3) by (simp add: tasks_search_def searchableFields_def)
  qed
  have D: "snd (tasks_search ts req s) = logged OpSelect s
          \<and> (status (fst (tasks_search ts req s)) = 200 \<or> status (fst (tasks_search ts req s)) = 500)"
    if "truthy (req ''fields'')" "\<not> list_ex padded_name ?es" "\<not> blank (req ''q'')"
       "list_ex (\<lambda>e. e \<in> set ?four) ?es"
  proof -
    have "filter (\<lambda>e. e \<in> set ?four) ?es \<noteq> []"
      using that(4) by (simp add: list_ex_iff filter_empty_conv)
    then have "fieldsToSearch (req ''fields'') \<noteq> []" using B [OF that(1,2)] by simp
    then show ?thesis using that(3) by (intro tasks_search_asks_store)
  qed
  have E1: "hd (conds (search_query req))
        = OrCond (''title.ilike.%'' @ trim (text_of (req ''q'')) @ ''%,description.ilike.%''
                  @ trim (text_of (req ''q'')) @ ''%,author.ilike.%'' @ trim (text_of (req ''q''))
                  @ ''%,priority.ilike.%'' @ trim (text_of (req ''q'')) @ ''%'')"
    if "\<not> truthy (req ''fields'')"
    using that
    by (simp add: search_query_def search_conds_def fieldsToSearch_def searchableFields_def
        orConditions_def)
  have E2: "snd (tasks_search ts req s) = logged OpSelect s
          \<and> (status (fst (tasks_search ts req s)) = 200 \<or> status (fst (tasks_search ts req s)) = 500)"
    if "\<not> truthy (req ''fields'')" "\<not> blank (req ''q'')"
  proof -
    have "fieldsToSearch (req ''fields'') \<noteq> []"
      using that(1) by (simp add: fieldsToSearch_def searchableFields_def)
    then show ?thesis using that(2) by (intro tasks_search_asks_store)
  qed
  let ?asked = "snd (tasks_search ts req s) = logged OpSelect s
          \<and> (status (fst (tasks_search ts req s)) = 200 \<or> status (fst (tasks_search ts req s)) = 500)"
  have BCD: "truthy (req ''fields'') \<and> \<not> list_ex padded_name ?es \<longrightarrow>
      fieldsToSearch (req ''fields'') = filter (\<lambda>e. e \<in> set ?four) ?es
      \<and> (\<not> blank (req ''q'') \<and> \<not> list_ex (\<lambda>e. e \<in> set ?four) ?es \<longrightarrow>
          tasks_search ts req s
            = (respond 400 (Error ''Invalid fields. Available: title, description, author, priority''), s))
      \<and> (\<not> blank (req ''q'') \<and> list_ex (\<lambda>e. e \<in> set ?four) ?es \<longrightarrow> ?asked)"
  proof (rule impI)
    assume h: "truthy (req ''fields'') \<and> \<not> list_ex padded_name ?es"
    note h1 = conjunct1 [OF h] and h2 = conjunct2 [OF h]
    have c: "\<not> blank (req ''q'') \<and> \<not> list_ex (\<lambda>e. e \<in> set ?four) ?es \<longrightarrow>
          tasks_search ts req s
            = (respond 400 (Error ''Invalid fields. Available: title, description, author, priority''), s)"
    proof (rule impI)
      assume c: "\<not> blank (req ''q'') \<and> \<not> list_ex (\<lambda>e. e \<in> set ?four) ?es"
      show "tasks_search ts req s
            = (respond 400 (Error ''Invalid fields. Available: title, description, author, priority''), s)"
        by (rule C [OF h1 h2 conjunct1 [OF c] conjunct2 [OF c]])
    qed
    have d: "\<not> blank (req ''q'') \<and> list_ex (\<lambda>e. e \<in> set ?four) ?es \<longrightarrow> ?asked"
    proof (rule impI)
      assume d: "\<not> blank (req ''q'') \<and> list_ex (\<lambda>e. e \<in> set ?four) ?es"
      show ?asked by (rule D [OF h1 h2 conjunct1 [OF d] conjunct2 [OF d]])
    qed
    show "fieldsToSearch (req ''fields'') = filter (\<lambda>e. e \<in> set ?four) ?es
      \<and> (\<not> blank (req ''q'') \<and> \<not> list_ex (\<lambda>e. e \<in> set ?four) ?es \<longrightarrow>
          tasks_search ts req s
            = (respond 400 (Error ''Invalid fields. Available: title, description, author, priority''), s))
      \<and> (\<not> blank (req ''q'') \<and> list_ex (\<lambda>e. e \<in> set ?four) ?es \<longrightarrow> ?asked)"
      by (rule conjI [OF B [OF h1 h2] conjI [OF c d]])
  qed
  have E: "\<not> truthy (req ''fields'') \<longrightarrow>
      hd (conds (search_query req))
        = OrCond (''title.ilike.%'' @ trim (text_of (req ''q'')) @ ''%,description.ilike.%''
                  @ trim (text_of (req ''q'')) @ ''%,author.ilike.%'' @ trim (text_of (req ''q''))
                  @ ''%,priority.ilike.%'' @ trim (text_of (req ''q'')) @ ''%'')
      \<and> (\<not> blank (req ''q'') \<longrightarrow> ?asked)"
  proof (rule impI)
    assume h: "\<not> truthy (req ''fields'')"
    have e: "\<not> blank (req ''q'') \<longrightarrow> ?asked"
    proof (rule impI)
      assume "\<not> blank (req ''q'')"
      then show ?asked by (rule E2 [OF h])
    qed
    show "hd (conds (search_query req))
        = OrCond (''title.ilike.%'' @ trim (text_of (req ''q'')) @ ''%,description.ilike.%''
                  @ trim (text_of (req ''q'')) @ ''%,author.ilike.%'' @ trim (text_of (req ''q''))
                  @ ''%,priority.ilike.%'' @ trim (text_of (req ''q'')) @ ''%'')
      \<and> (\<not> blank (req ''q'') \<longrightarrow> ?asked)"
      by (rule conjI [OF E1 [OF h] e])
  qed
  show ?thesis by (rule conjI [OF A conjI [OF BCD E]])
qed

text \<open>The theorem at \<^verbatim>\<open>fields=bogus,nope\<close>, where no entry is kept and the answer is
  400, and at \<^verbatim>\<open>fields=title,nope\<close>, where \<^verbatim>\<open>title\<close> is kept and the store is asked.\<close>

theorem search_validation_witness:
  "tasks_search example_dates [''q'' \<mapsto> ''spec'', ''fields'' \<mapsto> ''bogus,nope''] one_task_store
     = (respond 400 (Error ''Invalid fields. Available: title, description, author, priority''),
        one_task_store)
   \<and> fieldsToSearch (Some ''title,nope'') = [''title'']
   \<and> snd (tasks_search example_dates [''q'' \<mapsto> ''spec'', ''fields'' \<mapsto> ''title,nope''] one_task_store)
       = logged OpSelect one_task_store"
proof -
  let ?r1 = "[''q'' \<mapsto> ''spec'', ''fields'' \<mapsto> ''bogus,nope'']"
  let ?r2 = "[''q'' \<mapsto> ''spec'', ''fields'' \<mapsto> ''title,nope'']"
  have q1: "\<not> blank (?r1 ''q'')" by code_simp
  have f1: "truthy (?r1 ''fields'')" by code_simp
  have p1: "\<not> list_ex padded_name (split_on CHR '','' (text_of (?r1 ''fields'')))" by code_simp
  have n1: "\<not> list_ex (\<lambda>e. e \<in> set [''title'', ''description'', ''author'', ''priority''])
                  (split_on CHR '','' (text_of (?r1 ''fields'')))" by code_simp
  have q2: "\<not> blank (?r2 ''q'')" by code_simp
  have f2: "truthy (?r2 ''fields'')" by code_simp
  have p2: "\<not> list_ex padded_name (split_on CHR '','' (text_of (?r2 ''fields'')))" by code_simp
  have n2: "list_ex (\<lambda>e. e \<in> set [''title'', ''description'', ''author'', ''priority''])
                  (split_on CHR '','' (text_of (?r2 ''fields'')))" by code_simp
  have k2: "filter (\<lambda>e. e \<in> set [''title'', ''description'', ''author'', ''priority''])
                  (split_on CHR '','' (text_of (Some ''title,nope''))) = [''title'']" by code_simp
  have v2: "?r2 ''fields'' = Some ''title,nope''" by simp
  note t1 = search_validation [where req = ?r1 and ts = example_dates and s = one_task_store,
      THEN conjunct2, THEN conjunct1, rule_format, OF conjI [OF f1 p1]]
  note t2 = search_validation [where req = ?r2 and ts = example_dates and s = one_task_store,
      THEN conjunct2, THEN conjunct1, rule_format, OF conjI [OF f2 p2]]
  have a: "tasks_search example_dates ?r1 one_task_store
     = (respond 400 (Error ''Invalid fields. Available: title, description, author, priority''),
        one_task_store)"
    by (rule t1 [THEN conjunct2, THEN conjunct1, rule_format, OF conjI [OF q1 n1]])
  have b: "fieldsToSearch (Some ''title,nope'') = [''title'']"
    using t2 [THEN conjunct1] by (simp only: k2 v2)
  have c: "snd (tasks_search example_dates ?r2 one_task_store) = logged OpSelect one_task_store"
    by (rule t2 [THEN conjunct2, THEN conjunct2, rule_format, OF conjI [OF q2 n2], THEN conjunct1])
  show ?thesis by (rule conjI [OF a conjI [OF b c]])
qed

subsection \<open>C7: the sort field\<close>

text \<open>
  \<^bold>\<open>C7\<close>. The sort handler validates \<^verbatim>\<open>sort_by\<close> by looking it up in an object literal,
  and the lookup also finds what the literal inherits. For \<^verbatim>\<open>sort_by=constructor\<close>, which
  is none of the eight field names, the resolved sort field is not \<^verbatim>\<open>created_at\<close> but the
  inherited function; the store cannot order by it and the response is 500. The search
  handler, which tests membership in an array, resolves the same value to
  \<^verbatim>\<open>created_at\<close>.
\<close>

theorem sort_by_constructor_evaluated:
  "sort_sortField (Some ''constructor'') = JFun ''Object''
   \<and> ''constructor'' \<notin> set [''title'', ''author'', ''priority'', ''created_at'', ''updated_at'',
                               ''start_date'', ''due_date'', ''description'']
   \<and> fst (tasks_sort example_dates [''sort_by'' \<mapsto> ''constructor''] one_task_store)
       = respond 500 (ErrorMessage ''Failed to sort tasks'' (error_message bad_query))
   \<and> search_sortField (Some ''constructor'') = ''created_at''"
  by code_simp

subsection \<open>C8: updating\<close>

text \<open>
  \<^bold>\<open>C8\<close>. An update whose identifier has no row is answered with 404; the store has
  received the existence check and nothing else, and its rows are the same. When the
  identifier has its row and the store accepts the update, the store has received the
  existence check and then the update, the row is overwritten as the update says, and
  the response is 200 with the updated row.
\<close>

theorem patch_task_checks_existence_first:
  "(ident \<noteq> [] \<and> filter (\<lambda>t. task_id t = ident) (rows s) = [] \<longrightarrow>
      patch_task ts ident updates s = (respond 404 (Error ''Task not found''), logged OpSelect s)
      \<and> rows (snd (patch_task ts ident updates s)) = rows s
      \<and> calls (snd (patch_task ts ident updates s)) = calls s @ [OpSelect])
   \<and> (ident \<noteq> [] \<and> down s = None \<and> filter (\<lambda>t. task_id t = ident) (rows s) = [t]
      \<and> list_all (\<lambda>kv. fst kv \<in> set (text_columns @ date_columns)) updates
      \<and> list_all (\<lambda>kv. fst kv \<notin> set date_columns \<or> readable ts (snd kv)) updates \<longrightarrow>
      fst (patch_task ts ident updates s) = respond 200 (Data (Some (apply_updates updates (clock s) t)))
      \<and> rows (snd (patch_task ts ident updates s))
          = map (\<lambda>r. if task_id r = ident then apply_updates updates (clock s) r else r) (rows s)
      \<and> calls (snd (patch_task ts ident updates s)) = calls s @ [OpSelect, OpUpdate])"
proof (intro conjI impI)
  assume a: "ident \<noteq> [] \<and> filter (\<lambda>t. task_id t = ident) (rows s) = []"
  then obtain e where e: "store_single ident s = (Inl e, logged OpSelect s)"
    using store_single_none by blast
  with a show "patch_task ts ident updates s = (respond 404 (Error ''Task not found''), logged OpSelect s)"
    by (simp add: patch_task_def)
  then show "rows (snd (patch_task ts ident updates s)) = rows s"
    and "calls (snd (patch_task ts ident updates s)) = calls s @ [OpSelect]"
    by simp_all
next
  assume a: "ident \<noteq> [] \<and> down s = None \<and> filter (\<lambda>t. task_id t = ident) (rows s) = [t]
      \<and> list_all (\<lambda>kv. fst kv \<in> set (text_columns @ date_columns)) updates
      \<and> list_all (\<lambda>kv. fst kv \<notin> set date_columns \<or> readable ts (snd kv)) updates"
  then have single: "store_single ident s = (Inr t, logged OpSelect s)"
    by (simp add: store_single_one)
  have upd: "store_update ts ident updates (logged OpSelect s)
     = (Inr [apply_updates updates (clock s) t],
        (logged OpUpdate (logged OpSelect s))
          \<lparr>rows := map (\<lambda>r. if task_id r = ident then apply_updates updates (clock s) r else r) (rows s),
           clock := clock s + 1\<rparr>)"
    using a by (simp add: store_update_def Let_def)
  from a single upd
  show "fst (patch_task ts ident updates s) = respond 200 (Data (Some (apply_updates updates (clock s) t)))"
    and "rows (snd (patch_task ts ident updates s))
          = map (\<lambda>r. if task_id r = ident then apply_updates updates (clock s) r else r) (rows s)"
    and "calls (snd (patch_task ts ident updates s)) = calls s @ [OpSelect, OpUpdate]"
    by (simp_all add: patch_task_def first_def)
qed

text \<open>The theorem on the scenario's store: \<^verbatim>\<open>PATCH\<close> with \<^verbatim>\<open>{description:"done"}\<close> for the
  row that exists, and for an identifier that has none.\<close>

theorem patch_task_checks_existence_first_witness:
  "fst (patch_task example_dates ''1'' [(''description'', Some ''done'')] one_task_store)
     = respond 200 (Data (Some (spec_task\<lparr>description := Some ''done'', updated_at := Some 1\<rparr>)))
   \<and> rows (snd (patch_task example_dates ''1'' [(''description'', Some ''done'')] one_task_store))
     = [spec_task\<lparr>description := Some ''done'', updated_at := Some 1\<rparr>]
   \<and> patch_task example_dates ''7'' [(''description'', Some ''done'')] one_task_store
     = (respond 404 (Error ''Task not found''), logged OpSelect one_task_store)"
  using patch_task_checks_existence_first [where ident = "''1''" and s = one_task_store
      and ts = example_dates and t = spec_task and updates = "[(''description'', Some ''done'')]"]
    patch_task_checks_existence_first [where ident = "''7''" and s = one_task_store
      and ts = example_dates and t = spec_task and updates = "[(''description'', Some ''done'')]"]
  by (simp add: one_task_store_def spec_task_def apply_updates_def text_columns_def
      date_columns_def)

subsection \<open>C9: deleting\<close>

text \<open>
  \<^bold>\<open>C9\<close>. A delete whose identifier has no row is answered with 404 and leaves the rows
  as they are. When the identifier has its row, which \<^verbatim>\<open>GET /tasks/:id\<close> returns with
  status 200, the response to the delete is 200 and carries that row as it was stored;
  afterwards the row is gone: the store's single-row fetch of the identifier reports
  that there is no row, which a second \<^verbatim>\<open>DELETE\<close> and a \<^verbatim>\<open>PATCH\<close> answer with 404 ``Task
  not found''. \<^verbatim>\<open>GET /tasks/:id\<close>, the fetch of the claim, answers it with status 500
  and the store's message, not with the not-found signal: the handler's treatment of a
  missing row that C4 describes, met here after a delete.
\<close>

theorem delete_task_removes_row:
  "(ident \<noteq> [] \<and> filter (\<lambda>t. task_id t = ident) (rows s) = [] \<longrightarrow>
      delete_task ident s = (respond 404 (Error ''Task not found''), logged OpSelect s)
      \<and> rows (snd (delete_task ident s)) = rows s
      \<and> calls (snd (delete_task ident s)) = calls s @ [OpSelect])
   \<and> (ident \<noteq> [] \<and> down s = None \<and> filter (\<lambda>t. task_id t = ident) (rows s) = [t] \<longrightarrow>
      fst (get_task ident s) = respond 200 (Data (Some t))
      \<and> fst (delete_task ident s) = respond 200 (Data (Some t))
      \<and> t \<in> set (rows s)
      \<and> rows (snd (delete_task ident s)) = filter (\<lambda>r. task_id r \<noteq> ident) (rows s)
      \<and> calls (snd (delete_task ident s)) = calls s @ [OpSelect, OpDelete]
      \<and> fst (store_single ident (snd (delete_task ident s))) = Inl no_single_row
      \<and> fst (delete_task ident (snd (delete_task ident s))) = respond 404 (Error ''Task not found'')
      \<and> fst (patch_task ts ident updates (snd (delete_task ident s))) = respond 404 (Error ''Task not found'')
      \<and> fst (get_task ident (snd (delete_task ident s)))
           = respond 500 (Error ''JSON object requested, multiple (or no) rows returned'')
      \<and> status (fst (get_task ident (snd (delete_task ident s)))) \<noteq> 404)"
proof (intro conjI impI)
  assume a: "ident \<noteq> [] \<and> filter (\<lambda>t. task_id t = ident) (rows s) = []"
  then obtain e where e: "store_single ident s = (Inl e, logged OpSelect s)"
    using store_single_none by blast
  with a show "delete_task ident s = (respond 404 (Error ''Task not found''), logged OpSelect s)"
    by (simp add: delete_task_def)
  then show "rows (snd (delete_task ident s)) = rows s"
    and "calls (snd (delete_task ident s)) = calls s @ [OpSelect]"
    by simp_all
next
  assume a: "ident \<noteq> [] \<and> down s = None \<and> filter (\<lambda>t. task_id t = ident) (rows s) = [t]"
  then have single: "store_single ident s = (Inr t, logged OpSelect s)"
    by (simp add: store_single_one)
  define s' where "s' = (logged OpDelete (logged OpSelect s))\<lparr>rows := filter (\<lambda>r. task_id r \<noteq> ident) (rows s)\<rparr>"
  have del: "store_delete ident (logged OpSelect s) = (Inr [t], s')"
    using a by (simp add: store_delete_def Let_def s'_def)
  have res: "delete_task ident s = (respond 200 (Data (Some t)), s')"
    using a single del by (simp add: delete_task_def first_def)
  have gone: "filter (\<lambda>r. task_id r = ident) (rows s') = []"
    by (simp add: s'_def filter_out_then_in)
  have healthy: "down s' = None" using a by (simp add: s'_def)
  have after: "get_task ident s'
      = (respond 500 (Error ''JSON object requested, multiple (or no) rows returned''), logged OpSelect s')"
    using gone healthy a by (simp add: get_task_def store_single_none_healthy no_single_row_def)
  show "fst (get_task ident s) = respond 200 (Data (Some t))"
    using a single by (simp add: get_task_def)
  show "fst (delete_task ident s) = respond 200 (Data (Some t))" using res by simp
  show "t \<in> set (rows s)"
  proof -
    have "t \<in> set (filter (\<lambda>t. task_id t = ident) (rows s))" using a by simp
    then show ?thesis by simp
  qed
  show "rows (snd (delete_task ident s)) = filter (\<lambda>r. task_id r \<noteq> ident) (rows s)"
    using res by (simp add: s'_def)
  show "calls (snd (delete_task ident s)) = calls s @ [OpSelect, OpDelete]"
    using res by (simp add: s'_def)
  show "fst (store_single ident (snd (delete_task ident s))) = Inl no_single_row"
    using res gone healthy by (simp add: store_single_none_healthy)
  show "fst (delete_task ident (snd (delete_task ident s))) = respond 404 (Error ''Task not found'')"
    using res gone healthy a by (simp add: delete_task_def store_single_none_healthy)
  show "fst (patch_task ts ident updates (snd (delete_task ident s))) = respond 404 (Error ''Task not found'')"
    using res gone healthy a by (simp add: patch_task_def store_single_none_healthy)
  show "fst (get_task ident (snd (delete_task ident s)))
           = respond 500 (Error ''JSON object requested, multiple (or no) rows returned'')"
    using res after by simp
  show "status (fst (get_task ident (snd (delete_task ident s)))) \<noteq> 404"
    using res after by (simp add: respond_def)
qed

text \<open>The theorem on the scenario's store: fetching the row, deleting it, fetching and
  deleting it again, and deleting an identifier that never had a row.\<close>

theorem delete_task_removes_row_witness:
  "fst (get_task ''1'' one_task_store) = respond 200 (Data (Some spec_task))
   \<and> fst (delete_task ''1'' one_task_store) = respond 200 (Data (Some spec_task))
   \<and> rows (snd (delete_task ''1'' one_task_store)) = []
   \<and> fst (get_task ''1'' (snd (delete_task ''1'' one_task_store)))
       = respond 500 (Error ''JSON object requested, multiple (or no) rows returned'')
   \<and> fst (delete_task ''1'' (snd (delete_task ''1'' one_task_store)))
       = respond 404 (Error ''Task not found'')
   \<and> delete_task ''7'' one_task_store
       = (respond 404 (Error ''Task not found''), logged OpSelect one_task_store)"
  using delete_task_removes_row [where ident = "''1''" and s = one_task_store and t = spec_task]
    delete_task_removes_row [where ident = "''7''" and s = one_task_store and t = spec_task]
  by (simp add: one_task_store_def spec_task_def)

subsection \<open>C10: the priority filter in the two list handlers\<close>

text \<open>
  \<^bold>\<open>C10\<close>. For a supplied \<^verbatim>\<open>priority\<close> parameter the search handler filters by the
  trimmed comma-separated entries, the sort handler by the trimmed and lower-cased
  entries. On the scenario's store, whose row holds the priority \<^verbatim>\<open>high\<close>, the parameter
  \<^verbatim>\<open>priority=HIGH\<close> makes the search (which finds the row without the filter) return no
  row, while the sort handler returns the row under the same filter.
\<close>

theorem priority_filter_normalised_differently:
  "(truthy (req ''priority'') \<longrightarrow>
      InCond ''priority'' (map trim (split_on CHR '','' (text_of (req ''priority''))))
        \<in> set (conds (search_query req))
      \<and> InCond ''priority'' (map (\<lambda>p. toLowerCase (trim p)) (split_on CHR '','' (text_of (req ''priority''))))
        \<in> set (conds (sort_query req)))
   \<and> data_rows (fst (tasks_search example_dates [''q'' \<mapsto> ''spec''] one_task_store)) = [spec_task]
   \<and> fst (store_select example_dates (search_query [''q'' \<mapsto> ''spec'', ''priority'' \<mapsto> ''HIGH'']) one_task_store)
       = Inr ([], 0)
   \<and> status (fst (tasks_search example_dates [''q'' \<mapsto> ''spec'', ''priority'' \<mapsto> ''HIGH''] one_task_store)) = 200
   \<and> data_rows (fst (tasks_search example_dates [''q'' \<mapsto> ''spec'', ''priority'' \<mapsto> ''HIGH''] one_task_store)) = []
   \<and> status (fst (tasks_sort example_dates [''priority'' \<mapsto> ''HIGH''] one_task_store)) = 200
   \<and> data_rows (fst (tasks_sort example_dates [''priority'' \<mapsto> ''HIGH''] one_task_store)) = [spec_task]"
proof -
  have general: "truthy (req ''priority'') \<longrightarrow>
      InCond ''priority'' (map trim (split_on CHR '','' (text_of (req ''priority''))))
        \<in> set (conds (search_query req))
      \<and> InCond ''priority'' (map (\<lambda>p. toLowerCase (trim p)) (split_on CHR '','' (text_of (req ''priority''))))
        \<in> set (conds (sort_query req))"
    by (simp add: search_query_def sort_query_def search_conds_def sort_conds_def
        search_priorities_def sort_priorities_def)
  have a: "data_rows (fst (tasks_search example_dates [''q'' \<mapsto> ''spec''] one_task_store)) = [spec_task]"
    by code_simp
  have b: "fst (store_select example_dates (search_query [''q'' \<mapsto> ''spec'', ''priority'' \<mapsto> ''HIGH'']) one_task_store)
       = Inr ([], 0)" by code_simp
  have c: "status (fst (tasks_search example_dates [''q'' \<mapsto> ''spec'', ''priority'' \<mapsto> ''HIGH''] one_task_store)) = 200"
    by code_simp
  have d: "data_rows (fst (tasks_search example_dates [''q'' \<mapsto> ''spec'', ''priority'' \<mapsto> ''HIGH''] one_task_store)) = []"
    by code_simp
  have e: "status (fst (tasks_sort example_dates [''priority'' \<mapsto> ''HIGH''] one_task_store)) = 200"
    by code_simp
  have f: "data_rows (fst (tasks_sort example_dates [''priority'' \<mapsto> ''HIGH''] one_task_store)) = [spec_task]"
    by code_simp
  from general a b c d e f show ?thesis by blast
qed

text \<open>The theorem at \<^verbatim>\<open>priority=HIGH, low\<close>: the search filters by \<^verbatim>\<open>HIGH\<close> and \<^verbatim>\<open>low\<close>,
  the sort by \<^verbatim>\<open>high\<close> and \<^verbatim>\<open>low\<close>.\<close>

theorem priority_filter_normalised_differently_witness:
  "InCond ''priority'' [''HIGH'', ''low'']
     \<in> set (conds (search_query [''q'' \<mapsto> ''spec'', ''priority'' \<mapsto> ''HIGH, low'']))
   \<and> InCond ''priority'' [''high'', ''low'']
     \<in> set (conds (sort_query [''q'' \<mapsto> ''spec'', ''priority'' \<mapsto> ''HIGH, low'']))"
  using priority_filter_normalised_differently [of "[''q'' \<mapsto> ''spec'', ''priority'' \<mapsto> ''HIGH, low'']"]
  by (simp add: truthy_def text_of_def trim_def isWhiteSpace_def toLowerCase_def
      toLowerCase_char_def add32_def)

end
